theory Spec2Isabelle
  imports Complex_Main
begin

section \<open>JavaScript numbers\<close>

text \<open>
  Every quantity of the calculator is a JavaScript \<open>number\<close>. The model keeps the three
  special values of the number type, because the code divides (\<open>0 / 0\<close> is \<open>NaN\<close>,
  \<open>x / 0\<close> is an infinity) and the claims speak about them. A finite number is an exact
  rational: the rounding error of binary64 arithmetic and the sign of zero are not
  modelled. \<open>undefined\<close> read as a number is \<open>NaN\<close>.
\<close>

datatype jsnum = Num rat | PosInf | NegInf | NaN

fun jneg :: "jsnum \<Rightarrow> jsnum" where
  "jneg (Num a) = Num (- a)"
| "jneg PosInf = NegInf"
| "jneg NegInf = PosInf"
| "jneg NaN = NaN"

fun jadd :: "jsnum \<Rightarrow> jsnum \<Rightarrow> jsnum" where
  "jadd (Num a) (Num b) = Num (a + b)"
| "jadd NaN _ = NaN"
| "jadd _ NaN = NaN"
| "jadd PosInf NegInf = NaN"
| "jadd NegInf PosInf = NaN"
| "jadd PosInf _ = PosInf"
| "jadd NegInf _ = NegInf"
| "jadd _ PosInf = PosInf"
| "jadd _ NegInf = NegInf"

definition jsub :: "jsnum \<Rightarrow> jsnum \<Rightarrow> jsnum" where
  "jsub x y = jadd x (jneg y)"

text \<open>The sign of a number that is not \<open>NaN\<close>: \<open>-1\<close>, \<open>0\<close> or \<open>1\<close>.\<close>

fun jsign :: "jsnum \<Rightarrow> int" where
  "jsign (Num a) = (if a < 0 then - 1 else if a = 0 then 0 else 1)"
| "jsign PosInf = 1"
| "jsign NegInf = - 1"
| "jsign NaN = 0"

definition inf_of_sign :: "int \<Rightarrow> jsnum" where
  "inf_of_sign s = (if s < 0 then NegInf else if s = 0 then NaN else PosInf)"

fun jmul :: "jsnum \<Rightarrow> jsnum \<Rightarrow> jsnum" where
  "jmul (Num a) (Num b) = Num (a * b)"
| "jmul NaN _ = NaN"
| "jmul _ NaN = NaN"
| "jmul x y = inf_of_sign (jsign x * jsign y)"

fun jdiv :: "jsnum \<Rightarrow> jsnum \<Rightarrow> jsnum" where
  "jdiv (Num a) (Num b) = (if b = 0 then inf_of_sign (jsign (Num a)) else Num (a / b))"
| "jdiv NaN _ = NaN"
| "jdiv _ NaN = NaN"
| "jdiv (Num a) _ = Num 0"
| "jdiv x (Num b) = inf_of_sign (jsign x * (if b < 0 then - 1 else 1))"
| "jdiv _ _ = NaN"

text \<open>\<open>Math.round\<close> rounds half up; \<open>Math.ceil\<close>; both keep the special values.\<close>

fun jround :: "jsnum \<Rightarrow> jsnum" where
  "jround (Num a) = Num (of_int \<lfloor>a + 1 / 2\<rfloor>)"
| "jround x = x"

fun jceil :: "jsnum \<Rightarrow> jsnum" where
  "jceil (Num a) = Num (of_int \<lceil>a\<rceil>)"
| "jceil x = x"

text \<open>Comparisons: every comparison with \<open>NaN\<close> is false.\<close>

fun jlt :: "jsnum \<Rightarrow> jsnum \<Rightarrow> bool" where
  "jlt (Num a) (Num b) = (a < b)"
| "jlt NaN _ = False"
| "jlt _ NaN = False"
| "jlt _ NegInf = False"
| "jlt PosInf _ = False"
| "jlt _ _ = True"

definition jgt :: "jsnum \<Rightarrow> jsnum \<Rightarrow> bool" where
  "jgt x y = jlt y x"

definition jge :: "jsnum \<Rightarrow> jsnum \<Rightarrow> bool" where
  "jge x y = (x \<noteq> NaN \<and> y \<noteq> NaN \<and> \<not> jlt x y)"

text \<open>\<open>Math.min\<close> and \<open>Math.max\<close>: \<open>NaN\<close> if either argument is.\<close>

definition jmin :: "jsnum \<Rightarrow> jsnum \<Rightarrow> jsnum" where
  "jmin x y = (if x = NaN \<or> y = NaN then NaN else if jlt y x then y else x)"

definition jmax :: "jsnum \<Rightarrow> jsnum \<Rightarrow> jsnum" where
  "jmax x y = (if x = NaN \<or> y = NaN then NaN else if jlt x y then y else x)"

text \<open>\<open>x || 0\<close> on a number: \<open>0\<close> and \<open>NaN\<close> are falsy.\<close>

definition or_zero :: "jsnum \<Rightarrow> jsnum" where
  "or_zero x = (if x = NaN \<or> x = Num 0 then Num 0 else x)"

definition of_month :: "int \<Rightarrow> jsnum" where
  "of_month m = Num (of_int m)"

fun is_finite :: "jsnum \<Rightarrow> bool" where
  "is_finite (Num a) = True"
| "is_finite x = False"

section \<open>Exceptions\<close>

text \<open>
  A call either returns a value or throws. The only exception the modelled code can
  raise is the \<open>TypeError\<close> of reading a property of \<open>undefined\<close>. A function that can
  throw has the result type \<open>error + 'a\<close>, with \<open>Inl\<close> for the exception.
\<close>

datatype error = TypeError

section \<open>Strings: \<open>split\<close> and \<open>parseInt\<close>\<close>

text \<open>\<open>s.split(c)\<close> for a one-character separator; it never returns an empty array.\<close>

fun split_on :: "char \<Rightarrow> string \<Rightarrow> string list" where
  "split_on c [] = [[]]"
| "split_on c (x # xs) =
     (if x = c then [] # split_on c xs
      else (case split_on c xs of [] \<Rightarrow> [[x]] | y # ys \<Rightarrow> (x # y) # ys))"

text \<open>
  \<open>parseInt(s)\<close> with no radix: leading white space and line terminators are skipped,
  then an optional sign, then a \<open>0x\<close> prefix selects base 16, then the longest run of
  digits is read; with no digit the result is \<open>NaN\<close>. A character of a \<open>string\<close> is a
  code unit below \<open>0x100\<close>; the white space of the language in that range is the space,
  \<open>U+0009\<close> to \<open>U+000D\<close> and the no-break space \<open>U+00A0\<close>.
\<close>

definition is_space :: "char \<Rightarrow> bool" where
  "is_space c =
     (c \<in> set [CHR '' '', CHR 0x09, CHR 0x0A, CHR 0x0B, CHR 0x0C, CHR 0x0D, CHR 0xA0])"

definition digit_val :: "nat \<Rightarrow> char \<Rightarrow> nat option" where
  "digit_val radix c =
     (let n = (of_char c :: nat);
          v = (if 48 \<le> n \<and> n \<le> 57 then Some (n - 48)
               else if 97 \<le> n \<and> n \<le> 122 then Some (n - 87)
               else if 65 \<le> n \<and> n \<le> 90 then Some (n - 55)
               else None)
      in case v of None \<Rightarrow> None | Some d \<Rightarrow> if d < radix then Some d else None)"

fun read_digits :: "nat \<Rightarrow> string \<Rightarrow> nat option \<Rightarrow> nat option" where
  "read_digits radix [] acc = acc"
| "read_digits radix (c # cs) acc =
     (case digit_val radix c of
        None \<Rightarrow> acc
      | Some d \<Rightarrow> read_digits radix cs (Some ((case acc of None \<Rightarrow> 0 | Some a \<Rightarrow> a) * radix + d)))"

definition parseInt :: "string \<Rightarrow> jsnum" where
  "parseInt s =
     (let t = dropWhile is_space s;
          (neg, u) = (case t of
                        c # r \<Rightarrow> if c = CHR ''-'' then (True, r)
                                 else if c = CHR ''+'' then (False, r) else (False, t)
                      | [] \<Rightarrow> (False, t));
          (radix, w) = (case u of
                          a # b # r \<Rightarrow> if a = CHR ''0'' \<and> (b = CHR ''x'' \<or> b = CHR ''X'')
                                        then (16, r) else (10, u)
                        | _ \<Rightarrow> (10, u))
      in case read_digits radix w None of
           None \<Rightarrow> NaN
         | Some n \<Rightarrow> Num (if neg then - of_nat n else of_nat n))"

text \<open>
  \<open>const [simplePercent, complexPercent] = ratio.split('/').map(n => parseInt(n) / 100)\<close>:
  the first component always exists; a missing second one is \<open>undefined\<close>, which the
  arithmetic that follows reads as \<open>NaN\<close>.
\<close>

definition parseRatio :: "string \<Rightarrow> jsnum \<times> jsnum" where
  "parseRatio ratio =
     (case map (\<lambda>n. jdiv (parseInt n) (Num 100)) (split_on (CHR ''/'') ratio) of
        [] \<Rightarrow> (NaN, NaN)
      | [a] \<Rightarrow> (a, NaN)
      | a # b # _ \<Rightarrow> (a, b))"

section \<open>The calculation utilities (\<open>src/utils/calculations.ts\<close>)\<close>

text \<open>
  Record fields carry a prefix (\<open>md_\<close>, \<open>sd_\<close>, \<open>cp_\<close>) because the interfaces of the
  source share field names.
\<close>

record MonthlyData =
  md_month :: int
  md_year :: string
  md_adoption :: jsnum
  md_activeUsers :: jsnum
  md_totalCredits :: jsnum
  md_paygCost :: jsnum
  md_packCost :: jsnum
  md_m365Cost :: jsnum
  md_savings :: jsnum

record ScenarioData =
  sd_users :: jsnum
  sd_agents :: jsnum
  sd_ratio :: string
  sd_activeUsers :: jsnum
  sd_creditsPerUserMonth :: jsnum
  sd_monthlyPayg :: jsnum
  sd_yearlyPayg :: jsnum
  sd_yearlyM365 :: jsnum
  sd_savings :: jsnum
  sd_savingsPercent :: jsnum

record CalculationParams =
  cp_userCount :: jsnum
  cp_complexityRatio :: string
  cp_simpleCreditsPerUser :: jsnum
  cp_complexCreditsPerUser :: jsnum
  cp_year1GrowthRate :: jsnum
  cp_adoptionCeiling :: jsnum
  cp_steadyStateAdoption :: jsnum

definition PAYG_RATE :: jsnum where
  "PAYG_RATE = Num (1 / 100)"

definition PACK_COST :: jsnum where
  "PACK_COST = Num 200"

definition PACK_CREDITS :: jsnum where
  "PACK_CREDITS = Num 25000"

definition M365_COPILOT_COST :: jsnum where
  "M365_COPILOT_COST = Num 30"

definition BREAKEVEN_CREDITS :: jsnum where
  "BREAKEVEN_CREDITS = jdiv M365_COPILOT_COST PAYG_RATE"

definition validateNumber :: "jsnum \<Rightarrow> jsnum \<Rightarrow> jsnum \<Rightarrow> jsnum" where
  "validateNumber v lo hi = (let num = (if v = NaN then lo else v) in jmin (jmax num lo) hi)"

text \<open>
  \<open>calculateMonthlyData\<close>: the loop over months 1 to 24 carries \<open>currentAdoption\<close> and
  the array \<open>data\<close>; \<open>monthly_body\<close> is one pass of the loop body.
\<close>

definition monthly_body ::
  "CalculationParams \<Rightarrow> jsnum \<times> jsnum \<Rightarrow> jsnum \<times> MonthlyData list \<Rightarrow> int \<Rightarrow> jsnum \<times> MonthlyData list" where
  "monthly_body p pc st month =
     (let simplePercent = fst pc; complexPercent = snd pc;
          currentAdoption =
            (if month \<le> 12
             then jmin (cp_adoptionCeiling p)
                       (jadd (Num 10) (jmul (of_month (month - 1)) (cp_year1GrowthRate p)))
             else fst st);
          activeUsers = jround (jmul (cp_userCount p) (jdiv currentAdoption (Num 100)));
          creditsPerUserMonth =
            jadd (jmul (cp_simpleCreditsPerUser p) simplePercent)
                 (jmul (cp_complexCreditsPerUser p) complexPercent);
          totalCredits = jmul activeUsers creditsPerUserMonth;
          paygCost = jmul totalCredits PAYG_RATE;
          packsNeeded = jceil (jdiv totalCredits PACK_CREDITS);
          packCost = jmul packsNeeded PACK_COST;
          m365Cost = jmul (cp_userCount p) M365_COPILOT_COST
      in (currentAdoption,
          snd st @
          [\<lparr>md_month = month,
            md_year = (if month \<le> 12 then ''Year 1'' else ''Year 2''),
            md_adoption = currentAdoption,
            md_activeUsers = activeUsers,
            md_totalCredits = totalCredits,
            md_paygCost = jround paygCost,
            md_packCost = packCost,
            md_m365Cost = m365Cost,
            md_savings = jround (jsub m365Cost paygCost)\<rparr>]))"

definition calculateMonthlyData :: "CalculationParams \<Rightarrow> MonthlyData list" where
  "calculateMonthlyData p =
     snd (foldl (monthly_body p (parseRatio (cp_complexityRatio p))) (Num 10, []) [1..24])"

text \<open>
  \<open>calculateScenarioComparison\<close>: three nested \<open>for ... of\<close> loops pushing one record per
  combination; \<open>scenario_record\<close> is the body of the innermost loop.
\<close>

definition scenario_record ::
  "jsnum \<Rightarrow> jsnum \<Rightarrow> jsnum \<Rightarrow> jsnum \<Rightarrow> jsnum \<Rightarrow> string \<Rightarrow> ScenarioData" where
  "scenario_record simpleCreditsPerUser complexCreditsPerUser steadyStateAdoption users agents ratio =
     (let pc = parseRatio ratio;
          simplePercent = fst pc; complexPercent = snd pc;
          activeUsers = jround (jmul users (jdiv steadyStateAdoption (Num 100)));
          creditsPerUserMonth =
            jadd (jmul simpleCreditsPerUser simplePercent) (jmul complexCreditsPerUser complexPercent);
          totalCreditsMonth = jmul activeUsers creditsPerUserMonth;
          totalCreditsYear = jmul totalCreditsMonth (Num 12);
          paygYearlyCost = jmul totalCreditsYear PAYG_RATE;
          m365YearlyCost = jmul (jmul users M365_COPILOT_COST) (Num 12)
      in \<lparr>sd_users = users,
          sd_agents = agents,
          sd_ratio = ratio,
          sd_activeUsers = activeUsers,
          sd_creditsPerUserMonth = jround creditsPerUserMonth,
          sd_monthlyPayg = jround (jmul totalCreditsMonth PAYG_RATE),
          sd_yearlyPayg = jround paygYearlyCost,
          sd_yearlyM365 = m365YearlyCost,
          sd_savings = jround (jsub m365YearlyCost paygYearlyCost),
          sd_savingsPercent =
            jround (jmul (jdiv (jsub m365YearlyCost paygYearlyCost) m365YearlyCost) (Num 100))\<rparr>)"

definition calculateScenarioComparison ::
  "jsnum list \<Rightarrow> jsnum list \<Rightarrow> string list \<Rightarrow> jsnum \<Rightarrow> jsnum \<Rightarrow> jsnum \<Rightarrow> ScenarioData list" where
  "calculateScenarioComparison userScenarios agentScenarios complexityScenarios
       simpleCreditsPerUser complexCreditsPerUser steadyStateAdoption =
     concat (map (\<lambda>users.
       concat (map (\<lambda>agents.
         map (\<lambda>ratio.
           scenario_record simpleCreditsPerUser complexCreditsPerUser steadyStateAdoption
             users agents ratio) complexityScenarios) agentScenarios)) userScenarios)"

text \<open>
  The call as a whole. The body of \<open>calculateScenarioComparison\<close> has no \<open>throw\<close>
  statement, and \<open>split\<close>, \<open>map\<close>, \<open>parseInt\<close>, \<open>Math.round\<close>, \<open>push\<close> and the arithmetic
  operators do not throw on strings and numbers; a division by zero yields \<open>NaN\<close> or an
  infinity. The function sets no flag and has no other output than the returned array.
\<close>

definition calculateScenarioComparison_call ::
  "jsnum list \<Rightarrow> jsnum list \<Rightarrow> string list \<Rightarrow> jsnum \<Rightarrow> jsnum \<Rightarrow> jsnum \<Rightarrow>
     error + ScenarioData list" where
  "calculateScenarioComparison_call userScenarios agentScenarios complexityScenarios
       simpleCreditsPerUser complexCreditsPerUser steadyStateAdoption =
     Inr (calculateScenarioComparison userScenarios agentScenarios complexityScenarios
            simpleCreditsPerUser complexCreditsPerUser steadyStateAdoption)"

section \<open>The deployment-stage rollout projector\<close>

text \<open>
  The repository holds the rollout component in two generations. The agent-aggregated
  one (interface \<open>Config\<close> with three fields, 30 days per month, costs summed over the
  agent portfolio, \<open>licensingBreakpoint\<close>) is modelled under the names of the source. The
  config-driven one (interface \<open>Config\<close> with \<open>peakMultiplier\<close>, 22 working days, its own
  \<open>agentMonthlyCosts\<close> and \<open>licensingImpact\<close>; the file
  \<open>src/components/CopilotCostCalculator.tsx\<close> has the same \<open>monthlyData\<close>) carries the
  suffix \<open>_cfg\<close>. \<open>Stage\<close>, \<open>Agent\<close>, \<open>calculateAgentCredits\<close> and \<open>interpolateValue\<close> are the
  same text in both.

  A stage's \<open>month\<close> and the loop variable \<open>month\<close> are integers: the component never
  edits a stage's month (\<open>updateStage\<close> changes \<open>users\<close> and \<open>dau\<close> only).
\<close>

record Stage =
  st_name :: string
  st_users :: jsnum
  st_month :: int
  st_dau :: jsnum
  st_phase :: string

record Config =
  cfg_m365CopilotPrice :: jsnum
  cfg_autonomousActionRatio :: jsnum
  cfg_hybridM365Users :: jsnum

record RolloutMonth =
  rm_month :: int
  rm_year :: string
  rm_users :: jsnum
  rm_dau :: jsnum
  rm_dauPercent :: jsnum
  rm_activeUsers :: jsnum
  rm_conversations :: jsnum
  rm_credits :: jsnum
  rm_paygCost :: jsnum
  rm_p3Cost :: jsnum
  rm_paygM365Cost :: jsnum
  rm_p3M365Cost :: jsnum
  rm_m365AllCost :: jsnum

record PricingSummary =
  ps_model :: string
  ps_year1 :: jsnum
  ps_year2 :: jsnum
  ps_year3 :: jsnum
  ps_total :: jsnum
  ps_color :: string

record Agent =
  ag_id :: int
  ag_name :: string
  ag_purpose :: string
  ag_conversationsPerDay :: jsnum
  ag_turns :: jsnum
  ag_generativeRatio :: jsnum
  ag_actions :: jsnum
  ag_tenantGraph :: bool
  ag_deployMonth :: jsnum
  ag_segments :: "string list"
  ag_color :: string
  ag_enabled :: bool

record AgentCost =
  ac_agentId :: int
  ac_agentName :: string
  ac_cost :: jsnum
  ac_color :: string

record AgentMonthlyCost =
  amc_month :: int
  amc_agentCosts :: "AgentCost list"
  amc_totalCost :: jsnum

definition calculateAgentCredits :: "Agent \<Rightarrow> jsnum" where
  "calculateAgentCredits agent =
     (let classicCredits = jmul (jmul (ag_turns agent) (jsub (Num 1) (ag_generativeRatio agent))) (Num 1);
          generativeCredits = jmul (jmul (ag_turns agent) (ag_generativeRatio agent)) (Num 2);
          actionCredits = jmul (ag_actions agent) (Num 5);
          graphCredits = (if ag_tenantGraph agent then Num 10 else Num 0)
      in jadd (jadd (jadd classicCredits generativeCredits) actionCredits) graphCredits)"

text \<open>
  \<open>interpolateValue\<close>. \<open>stagesBefore[stagesBefore.length - 1]\<close> and \<open>stagesAfter[0]\<close> are
  \<open>undefined\<close> on an empty array; with both undefined the call \<open>getValue(afterStage)\<close> reads
  a property of \<open>undefined\<close> and throws a \<open>TypeError\<close> (both callers pass a property
  read, \<open>s => s.users\<close> or \<open>s => s.dau\<close>).
\<close>

definition interpolateValue ::
  "int \<Rightarrow> Stage list \<Rightarrow> Stage list \<Rightarrow> (Stage \<Rightarrow> jsnum) \<Rightarrow> error + jsnum" where
  "interpolateValue month stagesBefore stagesAfter getValue =
     (let beforeStage = (if stagesBefore = [] then None else Some (last stagesBefore));
          afterStage = (case stagesAfter of [] \<Rightarrow> None | s # _ \<Rightarrow> Some s)
      in case beforeStage of
           None \<Rightarrow> (case afterStage of None \<Rightarrow> Inl TypeError | Some a \<Rightarrow> Inr (getValue a))
         | Some b \<Rightarrow>
             (case afterStage of
                None \<Rightarrow> Inr (getValue b)
              | Some a \<Rightarrow>
                  (let monthRange = jsub (of_month (st_month a)) (of_month (st_month b));
                       monthProgress = jsub (of_month month) (of_month (st_month b));
                       ratio = jdiv monthProgress monthRange;
                       beforeValue = getValue b;
                       afterValue = getValue a
                   in Inr (jadd beforeValue (jmul (jsub afterValue beforeValue) ratio)))))"

text \<open>
  \<open>stages.filter(s => s.month <= month)\<close> and \<open>stages.filter(s => s.month > month)\<close>, then
  the interpolation, as the first lines of both \<open>monthlyData\<close> loops have them.
\<close>

definition interpolate_at :: "Stage list \<Rightarrow> int \<Rightarrow> (Stage \<Rightarrow> jsnum) \<Rightarrow> error + jsnum" where
  "interpolate_at stages month getValue =
     interpolateValue month (filter (\<lambda>s. st_month s \<le> month) stages)
       (filter (\<lambda>s. st_month s > month) stages) getValue"

text \<open>
  The current stage. The agent-aggregated generation scans from the end
  (\<open>[...stages].reverse().find(s => s.month <= month) || stages[0]\<close>); the
  \<open>agentMonthlyCosts\<close> of the config-driven generation scans from the front
  (\<open>stages.find(s => s.month <= month) || stages[0]\<close>). \<open>None\<close> is \<open>undefined\<close>.
\<close>

definition currentStage :: "Stage list \<Rightarrow> int \<Rightarrow> Stage option" where
  "currentStage stages month =
     (case find (\<lambda>s. st_month s \<le> month) (rev stages) of
        Some s \<Rightarrow> Some s
      | None \<Rightarrow> (case stages of [] \<Rightarrow> None | s # _ \<Rightarrow> Some s))"

definition currentStage_cfg :: "Stage list \<Rightarrow> int \<Rightarrow> Stage option" where
  "currentStage_cfg stages month =
     (case find (\<lambda>s. st_month s \<le> month) stages of
        Some s \<Rightarrow> Some s
      | None \<Rightarrow> (case stages of [] \<Rightarrow> None | s # _ \<Rightarrow> Some s))"

text \<open>
  Eligible users of an agent from its segments and the phase of the current stage;
  reading \<open>currentStage.phase\<close> of an undefined stage throws.
\<close>

definition eligibleUsers :: "string list \<Rightarrow> Stage option \<Rightarrow> jsnum \<Rightarrow> error + jsnum" where
  "eligibleUsers segments cur users =
     (if ''All'' \<in> set segments then Inr users
      else if ''Stores'' \<in> set segments then Inr users
      else if ''Management'' \<in> set segments then
        (case cur of
           None \<Rightarrow> Inl TypeError
         | Some st \<Rightarrow>
             if st_phase st = ''Management'' \<or> st_phase st = ''Stores'' \<or> st_phase st = ''Enterprise''
             then Inr users
             else if st_phase st = ''Expansion'' then Inr (jround (jmul users (Num (4 / 10))))
             else Inr (Num 0))
      else if ''HQ'' \<in> set segments then
        (case cur of
           None \<Rightarrow> Inl TypeError
         | Some st \<Rightarrow>
             if st_phase st = ''Pilot'' \<or> st_phase st = ''Expansion'' then Inr users
             else Inr (jround (jmul users (Num (15 / 100)))))
      else Inr (Num 0))"

definition DAYS_PER_MONTH :: jsnum where
  "DAYS_PER_MONTH = Num 30"

definition paygRate :: jsnum where
  "paygRate = Num (1 / 100)"

definition p3Discount :: jsnum where
  "p3Discount = Num (15 / 100)"

subsection \<open>\<open>monthlyData\<close>, agent-aggregated\<close>

text \<open>
  \<open>agents.forEach\<close> inside the month loop: the accumulator is
  \<open>(totalConversations, totalCredits, totalActionsForM365)\<close>.
\<close>

fun agents_loop ::
  "jsnum \<Rightarrow> jsnum \<Rightarrow> Stage option \<Rightarrow> int \<Rightarrow> Agent list \<Rightarrow> jsnum \<times> jsnum \<times> jsnum
     \<Rightarrow> error + (jsnum \<times> jsnum \<times> jsnum)" where
  "agents_loop users dau cur month [] acc = Inr acc"
| "agents_loop users dau cur month (agent # rest) (totalConversations, totalCredits, totalActionsForM365) =
     (if ag_enabled agent \<and> \<not> jlt (of_month month) (ag_deployMonth agent)
      then (case eligibleUsers (ag_segments agent) cur users of
              Inl e \<Rightarrow> Inl e
            | Inr eligible \<Rightarrow>
                (let agentActiveUsers = jround (jmul eligible dau);
                     agentConversations =
                       jmul (jmul agentActiveUsers (ag_conversationsPerDay agent)) DAYS_PER_MONTH;
                     agentCreditsPerConv = calculateAgentCredits agent;
                     agentCredits = jmul agentConversations agentCreditsPerConv
                 in agents_loop users dau cur month rest
                      (jadd totalConversations agentConversations,
                       jadd totalCredits agentCredits,
                       jadd totalActionsForM365 (jmul agentConversations (ag_actions agent)))))
      else agents_loop users dau cur month rest (totalConversations, totalCredits, totalActionsForM365))"

definition userRatio :: "jsnum \<Rightarrow> jsnum \<Rightarrow> jsnum" where
  "userRatio users paygUsers = (if jgt users (Num 0) then jdiv paygUsers users else Num 0)"

definition year_label :: "int \<Rightarrow> string" where
  "year_label month = (if month \<le> 12 then ''Year 1'' else if month \<le> 24 then ''Year 2'' else ''Year 3'')"

definition month_record ::
  "Config \<Rightarrow> int \<Rightarrow> jsnum \<Rightarrow> jsnum \<Rightarrow> jsnum \<times> jsnum \<times> jsnum \<Rightarrow> RolloutMonth" where
  "month_record config month users dau totals =
     (case totals of (totalConversations, totalCredits, totalActionsForM365) \<Rightarrow>
       (let activeUsers = jround (jmul users dau);
            paygCost = jmul totalCredits paygRate;
            p3Cost = jmul (jmul totalCredits paygRate) (jsub (Num 1) p3Discount);
            m365Users = jmin (cfg_hybridM365Users config) users;
            paygUsers = jsub users m365Users;
            ratio = userRatio users paygUsers;
            paygCredits = jmul totalCredits ratio;
            m365AutonomousCredits =
              jmul (jmul (jmul totalActionsForM365 (jsub (Num 1) ratio))
                         (cfg_autonomousActionRatio config)) (Num 5);
            paygM365Cost =
              jadd (jmul m365Users (cfg_m365CopilotPrice config))
                   (jmul (jadd m365AutonomousCredits paygCredits) paygRate);
            p3M365Cost =
              jadd (jmul m365Users (cfg_m365CopilotPrice config))
                   (jmul (jmul (jadd m365AutonomousCredits paygCredits) paygRate)
                         (jsub (Num 1) p3Discount));
            m365AllCost = jmul users (cfg_m365CopilotPrice config)
        in \<lparr>rm_month = month,
            rm_year = year_label month,
            rm_users = users,
            rm_dau = dau,
            rm_dauPercent = jmul dau (Num 100),
            rm_activeUsers = activeUsers,
            rm_conversations = jround totalConversations,
            rm_credits = jround totalCredits,
            rm_paygCost = jround paygCost,
            rm_p3Cost = jround p3Cost,
            rm_paygM365Cost = jround paygM365Cost,
            rm_p3M365Cost = jround p3M365Cost,
            rm_m365AllCost = jround m365AllCost\<rparr>))"

text \<open>One pass of the month loop of \<open>monthlyData\<close>.\<close>

definition month_body :: "Stage list \<Rightarrow> Agent list \<Rightarrow> Config \<Rightarrow> int \<Rightarrow> error + RolloutMonth" where
  "month_body stages agents config month =
     (case interpolate_at stages month st_users of
        Inl e \<Rightarrow> Inl e
      | Inr u \<Rightarrow>
          (case interpolate_at stages month st_dau of
             Inl e \<Rightarrow> Inl e
           | Inr dau \<Rightarrow>
               (let users = jround u in
                case agents_loop users dau (currentStage stages month) month agents
                       (Num 0, Num 0, Num 0) of
                  Inl e \<Rightarrow> Inl e
                | Inr totals \<Rightarrow> Inr (month_record config month users dau totals))))"

text \<open>A \<open>for\<close> loop over months that pushes one record per month and stops at a throw.\<close>

fun run_months :: "(int \<Rightarrow> error + 'a) \<Rightarrow> int list \<Rightarrow> error + 'a list" where
  "run_months f [] = Inr []"
| "run_months f (m # ms) =
     (case f m of
        Inl e \<Rightarrow> Inl e
      | Inr r \<Rightarrow> (case run_months f ms of Inl e \<Rightarrow> Inl e | Inr rs \<Rightarrow> Inr (r # rs)))"

definition monthlyData :: "Stage list \<Rightarrow> Agent list \<Rightarrow> Config \<Rightarrow> error + RolloutMonth list" where
  "monthlyData stages agents config = run_months (month_body stages agents config) [1..36]"

subsection \<open>\<open>pricingSummary\<close>\<close>

text \<open>\<open>data.reduce((acc, m) => acc + m[key], 0)\<close> over a slice of the monthly records.\<close>

definition sum_key :: "RolloutMonth list \<Rightarrow> (RolloutMonth \<Rightarrow> jsnum) \<Rightarrow> jsnum" where
  "sum_key data key = foldl (\<lambda>acc m. jadd acc (key m)) (Num 0) data"

definition summary_row ::
  "RolloutMonth list \<Rightarrow> string \<Rightarrow> (RolloutMonth \<Rightarrow> jsnum) \<Rightarrow> string \<Rightarrow> PricingSummary" where
  "summary_row md model key color =
     (let year1 = sum_key (take 12 md) key;
          year2 = sum_key (take 12 (drop 12 md)) key;
          year3 = sum_key (take 12 (drop 24 md)) key
      in \<lparr>ps_model = model, ps_year1 = year1, ps_year2 = year2, ps_year3 = year3,
          ps_total = jadd (jadd year1 year2) year3, ps_color = color\<rparr>)"

definition pricingSummary :: "RolloutMonth list \<Rightarrow> PricingSummary list" where
  "pricingSummary md =
     [summary_row md ''PAYG Alone'' rm_paygCost ''#3b82f6'',
      summary_row md ''P3 Pre-Purchase (15% discount)'' rm_p3Cost ''#8b5cf6'',
      summary_row md ''PAYG + M365 Licenses'' rm_paygM365Cost ''#10b981'',
      summary_row md ''P3 + M365 Licenses'' rm_p3M365Cost ''#f59e0b'',
      summary_row md ''M365 Copilot for All'' rm_m365AllCost ''#ef4444'']"

subsection \<open>\<open>agentMonthlyCosts\<close>\<close>

text \<open>\<open>xs[i]\<close>: \<open>undefined\<close> outside the array.\<close>

definition nth_opt :: "'a list \<Rightarrow> int \<Rightarrow> 'a option" where
  "nth_opt xs i = (if 0 \<le> i \<and> nat i < length xs then Some (xs ! nat i) else None)"

text \<open>
  \<open>agents.forEach\<close> of \<open>agentMonthlyCosts\<close>; the accumulator is \<open>(agentCosts, totalCost)\<close>.
\<close>

fun agent_costs_loop ::
  "Stage option \<Rightarrow> RolloutMonth \<Rightarrow> int \<Rightarrow> Agent list \<Rightarrow> AgentCost list \<times> jsnum
     \<Rightarrow> error + (AgentCost list \<times> jsnum)" where
  "agent_costs_loop cur monthData month [] acc = Inr acc"
| "agent_costs_loop cur monthData month (agent # rest) (agentCosts, totalCost) =
     (if \<not> ag_enabled agent then agent_costs_loop cur monthData month rest (agentCosts, totalCost)
      else if jlt (of_month month) (ag_deployMonth agent)
      then agent_costs_loop cur monthData month rest (agentCosts, totalCost)
      else (case eligibleUsers (ag_segments agent) cur (rm_users monthData) of
              Inl e \<Rightarrow> Inl e
            | Inr eligible \<Rightarrow>
                (let activeUsers = jround (jmul eligible (rm_dau monthData));
                     creditsPerConv = calculateAgentCredits agent;
                     monthlyConversations =
                       jmul (jmul activeUsers (ag_conversationsPerDay agent)) DAYS_PER_MONTH;
                     monthlyCredits = jmul monthlyConversations creditsPerConv;
                     monthlyCost = jmul monthlyCredits paygRate
                 in agent_costs_loop cur monthData month rest
                      (agentCosts @
                         [\<lparr>ac_agentId = ag_id agent, ac_agentName = ag_name agent,
                           ac_cost = jround monthlyCost, ac_color = ag_color agent\<rparr>],
                       jadd totalCost monthlyCost))))"

text \<open>
  The month loop of \<open>agentMonthlyCosts\<close>, with the way the current stage is found as a
  parameter: it is the one line in which the two generations differ.
\<close>

fun agent_months_loop ::
  "(Stage list \<Rightarrow> int \<Rightarrow> Stage option) \<Rightarrow> Stage list \<Rightarrow> Agent list \<Rightarrow> RolloutMonth list
     \<Rightarrow> int list \<Rightarrow> error + AgentMonthlyCost list" where
  "agent_months_loop cur_of stages agents md [] = Inr []"
| "agent_months_loop cur_of stages agents md (month # ms) =
     (case nth_opt md (month - 1) of
        None \<Rightarrow> agent_months_loop cur_of stages agents md ms
      | Some monthData \<Rightarrow>
          (case agent_costs_loop (cur_of stages month) monthData month agents ([], Num 0) of
             Inl e \<Rightarrow> Inl e
           | Inr (agentCosts, totalCost) \<Rightarrow>
               (case agent_months_loop cur_of stages agents md ms of
                  Inl e \<Rightarrow> Inl e
                | Inr costs \<Rightarrow>
                    Inr (\<lparr>amc_month = month, amc_agentCosts = agentCosts,
                          amc_totalCost = jround totalCost\<rparr> # costs))))"

definition agentMonthlyCosts ::
  "Agent list \<Rightarrow> RolloutMonth list \<Rightarrow> Stage list \<Rightarrow> error + AgentMonthlyCost list" where
  "agentMonthlyCosts agents md stages = agent_months_loop currentStage stages agents md [1..36]"

definition agentMonthlyCosts_cfg ::
  "Agent list \<Rightarrow> RolloutMonth list \<Rightarrow> Stage list \<Rightarrow> error + AgentMonthlyCost list" where
  "agentMonthlyCosts_cfg agents md stages =
     agent_months_loop currentStage_cfg stages agents md [1..36]"

subsection \<open>\<open>monthlyData\<close> and \<open>licensingImpact\<close>, config-driven\<close>

record Config_cfg =
  cc_conversationsPerDay :: jsnum
  cc_turnsPerConversation :: jsnum
  cc_generativeRatio :: jsnum
  cc_actionsPerConversation :: jsnum
  cc_peakMultiplier :: jsnum
  cc_m365CopilotPrice :: jsnum
  cc_autonomousActionRatio :: jsnum
  cc_hybridM365Users :: jsnum

definition creditsPerConversation_cfg :: "Config_cfg \<Rightarrow> jsnum" where
  "creditsPerConversation_cfg config =
     (let classicTurns = jmul (cc_turnsPerConversation config) (jsub (Num 1) (cc_generativeRatio config));
          generativeTurns = jmul (cc_turnsPerConversation config) (cc_generativeRatio config);
          classicCredits = jmul classicTurns (Num 1);
          generativeCredits = jmul generativeTurns (Num 2);
          actionCredits = jmul (cc_actionsPerConversation config) (Num 5)
      in jadd (jadd classicCredits generativeCredits) actionCredits)"

definition workingDaysPerMonth :: jsnum where
  "workingDaysPerMonth = Num 22"

text \<open>\<open>isPeakMonth ? config.peakMultiplier : 1.0\<close> with \<open>isPeakMonth = month % 6 === 0\<close>.\<close>

definition multiplier_cfg :: "Config_cfg \<Rightarrow> int \<Rightarrow> jsnum" where
  "multiplier_cfg config month = (if month mod 6 = 0 then cc_peakMultiplier config else Num 1)"

definition month_record_cfg :: "Config_cfg \<Rightarrow> int \<Rightarrow> jsnum \<Rightarrow> jsnum \<Rightarrow> RolloutMonth" where
  "month_record_cfg config month users dau =
     (let activeUsers = jround (jmul users dau);
          multiplier = multiplier_cfg config month;
          conversations =
            jmul (jmul (jmul activeUsers (cc_conversationsPerDay config)) workingDaysPerMonth) multiplier;
          totalCredits = jmul conversations (creditsPerConversation_cfg config);
          paygCost = jmul totalCredits paygRate;
          p3Cost = jmul (jmul totalCredits paygRate) (jsub (Num 1) p3Discount);
          m365Users = jmin (cc_hybridM365Users config) users;
          paygUsers = jsub users m365Users;
          m365ActiveUsers = jround (jmul m365Users dau);
          paygActiveUsers = jround (jmul paygUsers dau);
          m365Conversations =
            jmul (jmul (jmul m365ActiveUsers (cc_conversationsPerDay config)) workingDaysPerMonth) multiplier;
          paygConversations =
            jmul (jmul (jmul paygActiveUsers (cc_conversationsPerDay config)) workingDaysPerMonth) multiplier;
          m365AutonomousCredits =
            jmul (jmul (jmul m365Conversations (cc_actionsPerConversation config))
                       (cc_autonomousActionRatio config)) (Num 5);
          paygCredits = jmul paygConversations (creditsPerConversation_cfg config);
          paygM365Cost =
            jadd (jmul m365Users (cc_m365CopilotPrice config))
                 (jmul (jadd m365AutonomousCredits paygCredits) paygRate);
          p3M365Cost =
            jadd (jmul m365Users (cc_m365CopilotPrice config))
                 (jmul (jmul (jadd m365AutonomousCredits paygCredits) paygRate)
                       (jsub (Num 1) p3Discount));
          m365AllCost = jmul users (cc_m365CopilotPrice config)
      in \<lparr>rm_month = month,
          rm_year = year_label month,
          rm_users = users,
          rm_dau = dau,
          rm_dauPercent = jmul dau (Num 100),
          rm_activeUsers = activeUsers,
          rm_conversations = jround conversations,
          rm_credits = jround totalCredits,
          rm_paygCost = jround paygCost,
          rm_p3Cost = jround p3Cost,
          rm_paygM365Cost = jround paygM365Cost,
          rm_p3M365Cost = jround p3M365Cost,
          rm_m365AllCost = jround m365AllCost\<rparr>)"

definition month_body_cfg :: "Stage list \<Rightarrow> Config_cfg \<Rightarrow> int \<Rightarrow> error + RolloutMonth" where
  "month_body_cfg stages config month =
     (case interpolate_at stages month st_users of
        Inl e \<Rightarrow> Inl e
      | Inr u \<Rightarrow>
          (case interpolate_at stages month st_dau of
             Inl e \<Rightarrow> Inl e
           | Inr dau \<Rightarrow> Inr (month_record_cfg config month (jround u) dau)))"

definition monthlyData_cfg :: "Stage list \<Rightarrow> Config_cfg \<Rightarrow> error + RolloutMonth list" where
  "monthlyData_cfg stages config = run_months (month_body_cfg stages config) [1..36]"

record MonthMetrics =
  mm_creditsPerUser :: jsnum
  mm_costPerUser :: jsnum

record LicensingImpact =
  li_avgCreditsPerUserMonth :: jsnum
  li_monthlyCostPerUser :: jsnum
  li_recommendM365 :: bool
  li_month12 :: MonthMetrics
  li_month24 :: MonthMetrics
  li_month36 :: MonthMetrics

text \<open>The constant that \<open>licensingImpact\<close> declares: \<open>const BREAKEVEN_CREDITS = 3000\<close>.\<close>

definition BREAKEVEN_CREDITS_cfg :: jsnum where
  "BREAKEVEN_CREDITS_cfg = Num 3000"

definition calculateMonthMetrics ::
  "AgentMonthlyCost list \<Rightarrow> RolloutMonth list \<Rightarrow> int \<Rightarrow> MonthMetrics" where
  "calculateMonthMetrics amc md month =
     (case nth_opt amc (month - 1) of
        None \<Rightarrow> \<lparr>mm_creditsPerUser = Num 0, mm_costPerUser = Num 0\<rparr>
      | Some monthCostData \<Rightarrow>
          (case nth_opt md (month - 1) of
             None \<Rightarrow> \<lparr>mm_creditsPerUser = Num 0, mm_costPerUser = Num 0\<rparr>
           | Some monthUserData \<Rightarrow>
               if rm_activeUsers monthUserData = Num 0
               then \<lparr>mm_creditsPerUser = Num 0, mm_costPerUser = Num 0\<rparr>
               else (let totalCredits = jdiv (amc_totalCost monthCostData) (Num (1 / 100));
                         creditsPerUser = jdiv totalCredits (rm_activeUsers monthUserData);
                         costPerUser = jdiv (amc_totalCost monthCostData) (rm_activeUsers monthUserData)
                     in \<lparr>mm_creditsPerUser = jround creditsPerUser,
                         mm_costPerUser = jdiv (jround (jmul costPerUser (Num 100))) (Num 100)\<rparr>)))"

definition licensingImpact_cfg :: "AgentMonthlyCost list \<Rightarrow> RolloutMonth list \<Rightarrow> LicensingImpact" where
  "licensingImpact_cfg amc md =
     (let month12 = calculateMonthMetrics amc md 12;
          month24 = calculateMonthMetrics amc md 24;
          month36 = calculateMonthMetrics amc md 36;
          avgCreditsPerUserMonth = mm_creditsPerUser month24;
          monthlyCostPerUser = mm_costPerUser month24
      in \<lparr>li_avgCreditsPerUserMonth = avgCreditsPerUserMonth,
          li_monthlyCostPerUser = monthlyCostPerUser,
          li_recommendM365 = jgt avgCreditsPerUserMonth BREAKEVEN_CREDITS_cfg,
          li_month12 = month12, li_month24 = month24, li_month36 = month36\<rparr>)"

text \<open>
  The whole chain of the config-driven component, from its state to \<open>licensingImpact\<close>.
\<close>

definition licensingImpact_of :: "Stage list \<Rightarrow> Agent list \<Rightarrow> Config_cfg \<Rightarrow> error + LicensingImpact" where
  "licensingImpact_of stages agents config =
     (case monthlyData_cfg stages config of
        Inl e \<Rightarrow> Inl e
      | Inr md \<Rightarrow>
          (case agentMonthlyCosts_cfg agents md stages of
             Inl e \<Rightarrow> Inl e
           | Inr amc \<Rightarrow> Inr (licensingImpact_cfg amc md)))"

subsection \<open>\<open>licensingBreakpoint\<close>\<close>

record LicensingBreakpoint =
  lb_currentAgentCount :: nat
  lb_currentPaygTotal :: jsnum
  lb_currentM365Total :: jsnum
  lb_breakpointAgentCount :: nat
  lb_breakpointPaygTotal :: jsnum
  lb_additionalAgents :: nat
  lb_hasBreakpoint :: bool
  lb_avgCreditsPerConv :: "jsnum option"
  lb_message :: string

text \<open>A counter printed inside a template string.\<close>

fun show_nat :: "nat \<Rightarrow> string" where
  "show_nat n =
     (if n < 10 then [char_of (48 + n)] else show_nat (n div 10) @ [char_of (48 + n mod 10)])"

text \<open>\<open>pricingSummary.find(p => p.model === name)?.total || 0\<close>.\<close>

definition total_of :: "PricingSummary list \<Rightarrow> string \<Rightarrow> jsnum" where
  "total_of summary name =
     (case find (\<lambda>p. ps_model p = name) summary of None \<Rightarrow> Num 0 | Some p \<Rightarrow> or_zero (ps_total p))"

text \<open>
  \<open>segmentCounts\<close> is a \<open>Map\<close>: its entries keep the order of first insertion, and
  \<open>set\<close> on a key that is present changes the value in place.
\<close>

fun bump_count :: "(string \<times> nat) list \<Rightarrow> string \<Rightarrow> (string \<times> nat) list" where
  "bump_count [] seg = [(seg, 1)]"
| "bump_count ((k, n) # rest) seg =
     (if k = seg then (k, n + 1) # rest else (k, n) # bump_count rest seg)"

definition segmentCounts :: "Agent list \<Rightarrow> (string \<times> nat) list" where
  "segmentCounts enabledAgents = foldl (\<lambda>m a. foldl bump_count m (ag_segments a)) [] enabledAgents"

text \<open>
  \<open>Array.from(segmentCounts.entries()).sort((a, b) => b[1] - a[1])[0][0]\<close>: a stable sort
  by falling count; on an empty array \<open>[0]\<close> is \<open>undefined\<close> and \<open>[0][0]\<close> throws.
\<close>

definition mostCommonSegment :: "Agent list \<Rightarrow> error + string" where
  "mostCommonSegment enabledAgents =
     (case sort_key (\<lambda>e. - int (snd e)) (segmentCounts enabledAgents) of
        [] \<Rightarrow> Inl TypeError
      | e # _ \<Rightarrow> Inr (fst e))"

text \<open>Eligible users of a simulated agent: the same chain, on one segment name.\<close>

definition eligibleUsers_sim :: "string \<Rightarrow> Stage option \<Rightarrow> jsnum \<Rightarrow> error + jsnum" where
  "eligibleUsers_sim mostCommon cur users =
     (if mostCommon = ''All'' then Inr users
      else if mostCommon = ''Stores'' then Inr users
      else if mostCommon = ''Management'' then
        (case cur of
           None \<Rightarrow> Inl TypeError
         | Some st \<Rightarrow>
             if st_phase st = ''Management'' \<or> st_phase st = ''Stores'' \<or> st_phase st = ''Enterprise''
             then Inr users
             else if st_phase st = ''Expansion'' then Inr (jround (jmul users (Num (4 / 10))))
             else Inr (Num 0))
      else if mostCommon = ''HQ'' then
        (case cur of
           None \<Rightarrow> Inl TypeError
         | Some st \<Rightarrow>
             if st_phase st = ''Pilot'' \<or> st_phase st = ''Expansion'' then Inr users
             else Inr (jround (jmul users (Num (15 / 100)))))
      else Inr (Num 0))"

text \<open>
  The inner loop over the 36 months for a given number of additional agents; the
  accumulator is \<open>additionalCost\<close>.
\<close>

fun additional_cost_loop ::
  "Stage list \<Rightarrow> RolloutMonth list \<Rightarrow> jsnum \<Rightarrow> string \<Rightarrow> jsnum \<Rightarrow> jsnum \<Rightarrow> nat
     \<Rightarrow> int list \<Rightarrow> jsnum \<Rightarrow> error + jsnum" where
  "additional_cost_loop stages md avgDeployMonth seg avgConversationsPerDay avgCreditsPerConv
       additionalAgents [] additionalCost = Inr additionalCost"
| "additional_cost_loop stages md avgDeployMonth seg avgConversationsPerDay avgCreditsPerConv
       additionalAgents (month # ms) additionalCost =
     (case nth_opt md (month - 1) of
        None \<Rightarrow>
          additional_cost_loop stages md avgDeployMonth seg avgConversationsPerDay avgCreditsPerConv
            additionalAgents ms additionalCost
      | Some monthData \<Rightarrow>
          if jlt (of_month month) avgDeployMonth
          then additional_cost_loop stages md avgDeployMonth seg avgConversationsPerDay
                 avgCreditsPerConv additionalAgents ms additionalCost
          else (case eligibleUsers_sim seg (currentStage stages month) (rm_users monthData) of
                  Inl e \<Rightarrow> Inl e
                | Inr eligible \<Rightarrow>
                    (let activeUsers = jround (jmul eligible (rm_dau monthData));
                         monthlyConversations =
                           jmul (jmul activeUsers avgConversationsPerDay) DAYS_PER_MONTH;
                         monthlyCredits = jmul monthlyConversations avgCreditsPerConv;
                         monthlyCost = jmul monthlyCredits paygRate
                     in additional_cost_loop stages md avgDeployMonth seg avgConversationsPerDay
                          avgCreditsPerConv additionalAgents ms
                          (jadd additionalCost (jmul monthlyCost (Num (of_nat additionalAgents)))))))"

definition MAX_AGENTS_TO_SIMULATE :: nat where
  "MAX_AGENTS_TO_SIMULATE = 200"

text \<open>
  The outer loop \<open>for (additionalAgents = 1; additionalAgents <= 200; additionalAgents++)\<close>,
  over the list of the counters still to try: the first that crosses is returned with its
  projected total, \<open>None\<close> when the list is used up.
\<close>

fun scan_agents ::
  "(nat \<Rightarrow> error + jsnum) \<Rightarrow> jsnum \<Rightarrow> jsnum \<Rightarrow> nat list \<Rightarrow> error + (nat \<times> jsnum) option" where
  "scan_agents cost currentPaygTotal currentM365Total [] = Inr None"
| "scan_agents cost currentPaygTotal currentM365Total (additionalAgents # rest) =
     (case cost additionalAgents of
        Inl e \<Rightarrow> Inl e
      | Inr additionalCost \<Rightarrow>
          (let projectedPaygTotal = jadd currentPaygTotal additionalCost
           in if jge projectedPaygTotal currentM365Total
              then Inr (Some (additionalAgents, projectedPaygTotal))
              else scan_agents cost currentPaygTotal currentM365Total rest))"

definition avgCreditsPerConv_of :: "Agent list \<Rightarrow> jsnum" where
  "avgCreditsPerConv_of enabledAgents =
     jdiv (foldl (\<lambda>sum a. jadd sum (calculateAgentCredits a)) (Num 0) enabledAgents)
          (Num (of_nat (length enabledAgents)))"

definition avgConversationsPerDay_of :: "Agent list \<Rightarrow> jsnum" where
  "avgConversationsPerDay_of enabledAgents =
     jdiv (foldl (\<lambda>sum a. jadd sum (ag_conversationsPerDay a)) (Num 0) enabledAgents)
          (Num (of_nat (length enabledAgents)))"

definition avgDeployMonth_of :: "Agent list \<Rightarrow> jsnum" where
  "avgDeployMonth_of enabledAgents =
     jround (jdiv (foldl (\<lambda>sum a. jadd sum (ag_deployMonth a)) (Num 0) enabledAgents)
                  (Num (of_nat (length enabledAgents))))"

text \<open>The additional cost of \<open>n\<close> simulated agents, as the body of the outer loop computes it.\<close>

definition additionalCost_of ::
  "Agent list \<Rightarrow> RolloutMonth list \<Rightarrow> Stage list \<Rightarrow> string \<Rightarrow> nat \<Rightarrow> error + jsnum" where
  "additionalCost_of enabledAgents md stages seg n =
     additional_cost_loop stages md (avgDeployMonth_of enabledAgents) seg
       (avgConversationsPerDay_of enabledAgents) (avgCreditsPerConv_of enabledAgents) n [1..36] (Num 0)"

definition licensingBreakpoint ::
  "Agent list \<Rightarrow> PricingSummary list \<Rightarrow> RolloutMonth list \<Rightarrow> Stage list
     \<Rightarrow> error + LicensingBreakpoint" where
  "licensingBreakpoint agents summary md stages =
     (let enabledAgents = filter ag_enabled agents in
      if length enabledAgents = 0
      then Inr \<lparr>lb_currentAgentCount = 0, lb_currentPaygTotal = Num 0, lb_currentM365Total = Num 0,
                lb_breakpointAgentCount = 0, lb_breakpointPaygTotal = Num 0,
                lb_additionalAgents = 0, lb_hasBreakpoint = False,
                lb_avgCreditsPerConv = None, lb_message = ''No agents enabled''\<rparr>
      else
        (let currentPaygTotal = total_of summary ''PAYG Alone'';
             currentM365Total = total_of summary ''M365 Copilot for All''
         in if jge currentPaygTotal currentM365Total
            then Inr \<lparr>lb_currentAgentCount = length enabledAgents,
                      lb_currentPaygTotal = currentPaygTotal,
                      lb_currentM365Total = currentM365Total,
                      lb_breakpointAgentCount = length enabledAgents,
                      lb_breakpointPaygTotal = currentPaygTotal,
                      lb_additionalAgents = 0, lb_hasBreakpoint = True,
                      lb_avgCreditsPerConv = None,
                      lb_message = ''M365 Copilot for All is already more economical at current scale''\<rparr>
            else
              (case mostCommonSegment enabledAgents of
                 Inl e \<Rightarrow> Inl e
               | Inr seg \<Rightarrow>
                   (case scan_agents (additionalCost_of enabledAgents md stages seg)
                           currentPaygTotal currentM365Total [1..<Suc MAX_AGENTS_TO_SIMULATE] of
                      Inl e \<Rightarrow> Inl e
                    | Inr (Some (additionalAgents, projectedPaygTotal)) \<Rightarrow>
                        Inr \<lparr>lb_currentAgentCount = length enabledAgents,
                             lb_currentPaygTotal = currentPaygTotal,
                             lb_currentM365Total = currentM365Total,
                             lb_breakpointAgentCount = length enabledAgents + additionalAgents,
                             lb_breakpointPaygTotal = jround projectedPaygTotal,
                             lb_additionalAgents = additionalAgents, lb_hasBreakpoint = True,
                             lb_avgCreditsPerConv =
                               Some (jdiv (jround (jmul (avgCreditsPerConv_of enabledAgents) (Num 10)))
                                          (Num 10)),
                             lb_message =
                               ''With your current onboarding plan, you have headroom for '' @
                               show_nat additionalAgents @ '' more agent'' @
                               (if additionalAgents > 1 then ''s'' else []) @
                               '' before M365 Copilot for All becomes more economical''\<rparr>
                    | Inr None \<Rightarrow>
                        Inr \<lparr>lb_currentAgentCount = length enabledAgents,
                             lb_currentPaygTotal = currentPaygTotal,
                             lb_currentM365Total = currentM365Total,
                             lb_breakpointAgentCount = length enabledAgents + MAX_AGENTS_TO_SIMULATE,
                             lb_breakpointPaygTotal = Num 0,
                             lb_additionalAgents = MAX_AGENTS_TO_SIMULATE, lb_hasBreakpoint = False,
                             lb_avgCreditsPerConv =
                               Some (jdiv (jround (jmul (avgCreditsPerConv_of enabledAgents) (Num 10)))
                                          (Num 10)),
                             lb_message =
                               ''PAYG remains more economical even with '' @
                               show_nat MAX_AGENTS_TO_SIMULATE @
                               ''+ additional agents given your onboarding plan''\<rparr>))))"

text \<open>The whole chain of the agent-aggregated component, from its state to \<open>licensingBreakpoint\<close>.\<close>

definition licensingBreakpoint_of ::
  "Stage list \<Rightarrow> Agent list \<Rightarrow> Config \<Rightarrow> error + LicensingBreakpoint" where
  "licensingBreakpoint_of stages agents config =
     (case monthlyData stages agents config of
        Inl e \<Rightarrow> Inl e
      | Inr md \<Rightarrow> licensingBreakpoint agents (pricingSummary md) md stages)"

section \<open>Fixtures\<close>

text \<open>The parameters the test suite uses (\<open>baseParams\<close> in \<open>calculations.test.ts\<close>).\<close>

definition baseParams :: CalculationParams where
  "baseParams =
     \<lparr>cp_userCount = Num 1300, cp_complexityRatio = ''80/20'', cp_simpleCreditsPerUser = Num 75,
      cp_complexCreditsPerUser = Num 600, cp_year1GrowthRate = Num 15, cp_adoptionCeiling = Num 80,
      cp_steadyStateAdoption = Num 60\<rparr>"

text \<open>The initial state of the rollout component: its stages, its agents, its configuration.\<close>

definition default_stages :: "Stage list" where
  "default_stages =
     [\<lparr>st_name = ''Pilot (HQ)'', st_users = Num 130, st_month = 1, st_dau = Num (45 / 100),
        st_phase = ''Pilot''\<rparr>,
      \<lparr>st_name = ''HQ Expansion'', st_users = Num 500, st_month = 4, st_dau = Num (40 / 100),
        st_phase = ''Expansion''\<rparr>,
      \<lparr>st_name = ''Full HQ'', st_users = Num 1000, st_month = 7, st_dau = Num (38 / 100),
        st_phase = ''Expansion''\<rparr>,
      \<lparr>st_name = ''HQ + Mgmt'', st_users = Num 2500, st_month = 10, st_dau = Num (35 / 100),
        st_phase = ''Management''\<rparr>,
      \<lparr>st_name = ''All Mgmt'', st_users = Num 6000, st_month = 13, st_dau = Num (33 / 100),
        st_phase = ''Management''\<rparr>,
      \<lparr>st_name = ''Mgmt + Stores'', st_users = Num 12000, st_month = 19, st_dau = Num (30 / 100),
        st_phase = ''Stores''\<rparr>,
      \<lparr>st_name = ''Near-Complete'', st_users = Num 30000, st_month = 31, st_dau = Num (28 / 100),
        st_phase = ''Enterprise''\<rparr>]"

definition default_agents :: "Agent list" where
  "default_agents =
     [\<lparr>ag_id = 1, ag_name = ''HR Helper'', ag_purpose = ''Benefits, PTO, policies'',
        ag_conversationsPerDay = Num (3 / 2), ag_turns = Num 4, ag_generativeRatio = Num (1 / 2),
        ag_actions = Num (1 / 2), ag_tenantGraph = False, ag_deployMonth = Num 1,
        ag_segments = [''HQ'', ''Management'', ''Stores'', ''All''], ag_color = ''#8b5cf6'',
        ag_enabled = True\<rparr>,
      \<lparr>ag_id = 2, ag_name = ''IT Helpdesk'', ag_purpose = ''Password reset, access requests'',
        ag_conversationsPerDay = Num 1, ag_turns = Num 5, ag_generativeRatio = Num (6 / 10),
        ag_actions = Num 2, ag_tenantGraph = False, ag_deployMonth = Num 1,
        ag_segments = [''HQ'', ''Management'', ''Stores'', ''All''], ag_color = ''#3b82f6'',
        ag_enabled = True\<rparr>,
      \<lparr>ag_id = 3, ag_name = ''Document Search'', ag_purpose = ''Policy docs, manuals'',
        ag_conversationsPerDay = Num 1, ag_turns = Num 6, ag_generativeRatio = Num (8 / 10),
        ag_actions = Num 1, ag_tenantGraph = True, ag_deployMonth = Num 4,
        ag_segments = [''HQ'', ''Management''], ag_color = ''#f59e0b'', ag_enabled = True\<rparr>,
      \<lparr>ag_id = 4, ag_name = ''Document Translation'',
        ag_purpose = ''Translate PPT, Word, Excel documents'',
        ag_conversationsPerDay = Num (3 / 4), ag_turns = Num 4, ag_generativeRatio = Num (95 / 100),
        ag_actions = Num (5 / 2), ag_tenantGraph = False, ag_deployMonth = Num 5,
        ag_segments = [''HQ'', ''Management''], ag_color = ''#22c55e'', ag_enabled = True\<rparr>,
      \<lparr>ag_id = 5, ag_name = ''Document Summarization'',
        ag_purpose = ''Summarize PPT, Word, Excel documents'',
        ag_conversationsPerDay = Num (3 / 2), ag_turns = Num 5, ag_generativeRatio = Num (85 / 100),
        ag_actions = Num (3 / 2), ag_tenantGraph = False, ag_deployMonth = Num 2,
        ag_segments = [''HQ'', ''Management'', ''Stores'', ''All''], ag_color = ''#ef4444'',
        ag_enabled = True\<rparr>]"

definition default_config :: Config where
  "default_config =
     \<lparr>cfg_m365CopilotPrice = Num 30, cfg_autonomousActionRatio = Num (15 / 100),
      cfg_hybridM365Users = Num 200\<rparr>"

definition default_config_cfg :: Config_cfg where
  "default_config_cfg =
     \<lparr>cc_conversationsPerDay = Num 4, cc_turnsPerConversation = Num 5,
      cc_generativeRatio = Num (70 / 100), cc_actionsPerConversation = Num (3 / 2),
      cc_peakMultiplier = Num (14 / 10), cc_m365CopilotPrice = Num 30,
      cc_autonomousActionRatio = Num (15 / 100), cc_hybridM365Users = Num 200\<rparr>"

text \<open>
  A stage list in which the pilot has not started yet (no users in month 1), and an agent
  at the upper end of the form's ranges.
\<close>

definition zero_pilot_stages :: "Stage list" where
  "zero_pilot_stages = (hd default_stages)\<lparr>st_users := Num 0\<rparr> # tl default_stages"

definition heavy_agent :: Agent where
  "heavy_agent =
     \<lparr>ag_id = 1, ag_name = ''Case Resolver'', ag_purpose = ''Resolves support cases'',
      ag_conversationsPerDay = Num 2, ag_turns = Num 10, ag_generativeRatio = Num 1,
      ag_actions = Num 5, ag_tenantGraph = False, ag_deployMonth = Num 1,
      ag_segments = [''All''], ag_color = ''#8b5cf6'', ag_enabled = True\<rparr>"

text \<open>The chains from the state of a component to its per-agent monthly costs.\<close>

definition agentMonthlyCosts_of ::
  "Stage list \<Rightarrow> Agent list \<Rightarrow> Config \<Rightarrow> error + AgentMonthlyCost list" where
  "agentMonthlyCosts_of stages agents config =
     (case monthlyData stages agents config of
        Inl e \<Rightarrow> Inl e
      | Inr md \<Rightarrow> agentMonthlyCosts agents md stages)"

definition agentMonthlyCosts_of_cfg ::
  "Stage list \<Rightarrow> Agent list \<Rightarrow> Config_cfg \<Rightarrow> error + AgentMonthlyCost list" where
  "agentMonthlyCosts_of_cfg stages agents config =
     (case monthlyData_cfg stages config of
        Inl e \<Rightarrow> Inl e
      | Inr md \<Rightarrow> agentMonthlyCosts_cfg agents md stages)"

section \<open>Notions of the specification\<close>

text \<open>
  The stage list of the specification is sorted by strictly increasing anchor month. For
  a target month, \<open>before\<close> is the stage with the largest anchor month not after it and
  \<open>after\<close> the stage with the smallest anchor month after it.
\<close>

definition strictly_increasing :: "Stage list \<Rightarrow> bool" where
  "strictly_increasing stages = sorted_wrt (\<lambda>x y. st_month x < st_month y) stages"

definition latest_before :: "Stage list \<Rightarrow> int \<Rightarrow> Stage \<Rightarrow> bool" where
  "latest_before stages M b =
     (b \<in> set stages \<and> st_month b \<le> M \<and>
      (\<forall>s \<in> set stages. st_month s \<le> M \<longrightarrow> st_month s \<le> st_month b))"

definition earliest_after :: "Stage list \<Rightarrow> int \<Rightarrow> Stage \<Rightarrow> bool" where
  "earliest_after stages M a =
     (a \<in> set stages \<and> M < st_month a \<and>
      (\<forall>s \<in> set stages. M < st_month s \<longrightarrow> st_month a \<le> st_month s))"

text \<open>
  The inputs the data model of the specification admits: numeric fields are numbers
  (not \<open>NaN\<close>, not infinite), and the number of flat-seat users is not negative.
\<close>

definition finite_agent :: "Agent \<Rightarrow> bool" where
  "finite_agent a =
     (is_finite (ag_conversationsPerDay a) \<and> is_finite (ag_turns a) \<and>
      is_finite (ag_generativeRatio a) \<and> is_finite (ag_actions a))"

definition finite_stage :: "Stage \<Rightarrow> bool" where
  "finite_stage s = (is_finite (st_users s) \<and> is_finite (st_dau s))"

definition valid_config :: "Config \<Rightarrow> bool" where
  "valid_config c =
     (is_finite (cfg_m365CopilotPrice c) \<and> is_finite (cfg_autonomousActionRatio c) \<and>
      is_finite (cfg_hybridM365Users c) \<and> jge (cfg_hybridM365Users c) (Num 0))"

section \<open>Properties of the 24-month projector\<close>

lemma upto_1_24:
  "[1..24::int] = [1,2,3,4,5,6,7,8,9,10,11,12,13,14,15,16,17,18,19,20,21,22,23,24]"
  by code_simp

lemma upto_1_12: "[1..12::int] = [1,2,3,4,5,6,7,8,9,10,11,12]"
  by code_simp

lemma adoption_list:
  "map md_adoption (calculateMonthlyData p) =
     map (\<lambda>m. jmin (cp_adoptionCeiling p)
                (jadd (Num 10) (jmul (of_month (m - 1)) (cp_year1GrowthRate p)))) [1..12] @
     replicate 12 (jmin (cp_adoptionCeiling p)
                     (jadd (Num 10) (jmul (of_month 11) (cp_year1GrowthRate p))))"
  unfolding calculateMonthlyData_def upto_1_24 upto_1_12
  by (simp add: monthly_body_def Let_def eval_nat_numeral)

lemma month_list: "map md_month (calculateMonthlyData p) = [1..24]"
  unfolding calculateMonthlyData_def upto_1_24
  by (simp add: monthly_body_def Let_def)

lemma calculateMonthlyData_length: "length (calculateMonthlyData p) = 24"
  using arg_cong[OF month_list[of p], of length] by simp

text \<open>
  C1. \<open>calculateMonthlyData\<close> returns 24 records, the record at index \<open>m - 1\<close> being month
  \<open>m\<close>. For the months 1 to 12 the adoption is
  \<open>Math.min(adoptionCeiling, 10 + (m - 1) * year1GrowthRate)\<close>, computed from the month
  number alone and not from the previous month's value; for the months 13 to 24 it is the
  value of month 12, unchanged.
\<close>

theorem calculateMonthlyData_adoption:
  "length (calculateMonthlyData p) = 24 \<and>
   (\<forall>m. 1 \<le> m \<and> m \<le> 24 \<longrightarrow> md_month (calculateMonthlyData p ! nat (m - 1)) = m) \<and>
   (\<forall>m. 1 \<le> m \<and> m \<le> 12 \<longrightarrow>
      md_adoption (calculateMonthlyData p ! nat (m - 1)) =
        jmin (cp_adoptionCeiling p) (jadd (Num 10) (jmul (of_month (m - 1)) (cp_year1GrowthRate p)))) \<and>
   (\<forall>m. 13 \<le> m \<and> m \<le> 24 \<longrightarrow>
      md_adoption (calculateMonthlyData p ! nat (m - 1)) = md_adoption (calculateMonthlyData p ! 11))"
proof -
  let ?L = "calculateMonthlyData p"
  let ?f = "\<lambda>m. jmin (cp_adoptionCeiling p)
                 (jadd (Num 10) (jmul (of_month (m - 1)) (cp_year1GrowthRate p)))"
  have len: "length ?L = 24" by (rule calculateMonthlyData_length)
  have al: "map md_adoption ?L = map ?f [1..12] @ replicate 12 (?f 12)"
    using adoption_list[of p] by simp
  have nth_ad: "md_adoption (?L ! i) = (map ?f [1..12] @ replicate 12 (?f 12)) ! i"
    if "i < 24" for i
    using that len al by (metis nth_map)
  have nth_mo: "md_month (?L ! i) = [1..24] ! i" if "i < 24" for i
    using that len month_list[of p] by (metis nth_map)
  have a: "md_month (?L ! nat (m - 1)) = m" if "1 \<le> m \<and> m \<le> 24" for m
  proof -
    have "nat (m - 1) < 24" using that by linarith
    then have "md_month (?L ! nat (m - 1)) = [1..24] ! nat (m - 1)" by (rule nth_mo)
    also have "\<dots> = 1 + int (nat (m - 1))" using that by (intro nth_upto) simp
    finally show ?thesis using that by simp
  qed
  have b: "md_adoption (?L ! nat (m - 1)) = ?f m" if "1 \<le> m \<and> m \<le> 12" for m
  proof -
    have lt: "nat (m - 1) < 12" using that by linarith
    then have "md_adoption (?L ! nat (m - 1)) =
        (map ?f [1..12] @ replicate 12 (?f 12)) ! nat (m - 1)"
      by (intro nth_ad) simp
    also have "\<dots> = ?f ([1..12] ! nat (m - 1))"
      using lt by (simp add: nth_append)
    also have "[1..12] ! nat (m - 1) = 1 + int (nat (m - 1))" using that by (intro nth_upto) simp
    finally show ?thesis using that by simp
  qed
  have c: "md_adoption (?L ! nat (m - 1)) = ?f 12" if "13 \<le> m \<and> m \<le> 24" for m
  proof -
    have lt: "nat (m - 1) < 24" "12 \<le> nat (m - 1)" using that by linarith+
    then have "md_adoption (?L ! nat (m - 1)) =
        (map ?f [1..12] @ replicate 12 (?f 12)) ! nat (m - 1)"
      by (intro nth_ad)
    also have "\<dots> = ?f 12"
      using lt by (simp add: nth_append)
    finally show ?thesis .
  qed
  have d: "md_adoption (?L ! 11) = ?f 12"
    using b[of 12] by simp
  show ?thesis using len a b c d by simp
qed

theorem calculateMonthlyData_adoption_witness:
  "(1::int) \<le> 2 \<and> (2::int) \<le> 12 \<and> (13::int) \<le> 20 \<and> (20::int) \<le> 24 \<and>
   md_adoption (calculateMonthlyData baseParams ! 1) = Num 25 \<and>
   md_adoption (calculateMonthlyData baseParams ! 19) =
     md_adoption (calculateMonthlyData baseParams ! 11)"
proof -
  note c1 = calculateMonthlyData_adoption[of baseParams]
  have y1: "\<forall>m. 1 \<le> m \<and> m \<le> 12 \<longrightarrow>
      md_adoption (calculateMonthlyData baseParams ! nat (m - 1)) =
        jmin (cp_adoptionCeiling baseParams)
          (jadd (Num 10) (jmul (of_month (m - 1)) (cp_year1GrowthRate baseParams)))"
    using c1 by blast
  have y2: "\<forall>m. 13 \<le> m \<and> m \<le> 24 \<longrightarrow>
      md_adoption (calculateMonthlyData baseParams ! nat (m - 1)) =
        md_adoption (calculateMonthlyData baseParams ! 11)"
    using c1 by blast
  have h1: "(1::int) \<le> 2 \<and> (2::int) \<le> 12" by simp
  have h2: "(13::int) \<le> 20 \<and> (20::int) \<le> 24" by simp
  have f: "jmin (cp_adoptionCeiling baseParams)
      (jadd (Num 10) (jmul (of_month (2 - 1)) (cp_year1GrowthRate baseParams))) = Num 25"
    by (simp add: baseParams_def jmin_def of_month_def)
  have n1: "nat (2 - 1) = 1" and n2: "nat (20 - 1) = 19" by simp_all
  from y1[rule_format, OF h1] f n1
  have r1: "md_adoption (calculateMonthlyData baseParams ! 1) = Num 25" by simp
  from y2[rule_format, OF h2] n2
  have r2: "md_adoption (calculateMonthlyData baseParams ! 19) =
            md_adoption (calculateMonthlyData baseParams ! 11)" by simp
  show ?thesis using r1 r2 by simp
qed

section \<open>Properties of the scenario matrix\<close>

lemma jround_zero [simp]: "jround (Num 0) = Num 0"
  by code_simp

lemma set_calculateScenarioComparison:
  "set (calculateScenarioComparison us ags cs s c ssa) =
     {scenario_record s c ssa u a r | u a r. u \<in> set us \<and> a \<in> set ags \<and> r \<in> set cs}"
  unfolding calculateScenarioComparison_def by auto

lemma scenario_record_fields:
  "sd_ratio (scenario_record s c ssa u a r) = r"
  "sd_users (scenario_record s c ssa u a r) = u"
  "sd_agents (scenario_record s c ssa u a r) = a"
  "sd_activeUsers (scenario_record s c ssa u a r) = jround (jmul u (jdiv ssa (Num 100)))"
  "sd_creditsPerUserMonth (scenario_record s c ssa u a r) =
     jround (jadd (jmul s (fst (parseRatio r))) (jmul c (snd (parseRatio r))))"
  "sd_monthlyPayg (scenario_record s c ssa u a r) =
     jround (jmul (jmul (jround (jmul u (jdiv ssa (Num 100))))
                        (jadd (jmul s (fst (parseRatio r))) (jmul c (snd (parseRatio r)))))
                  PAYG_RATE)"
  "sd_yearlyPayg (scenario_record s c ssa u a r) =
     jround (jmul (jmul (jmul (jround (jmul u (jdiv ssa (Num 100))))
                              (jadd (jmul s (fst (parseRatio r))) (jmul c (snd (parseRatio r)))))
                        (Num 12))
                  PAYG_RATE)"
  "sd_yearlyM365 (scenario_record s c ssa u a r) = jmul (jmul u M365_COPILOT_COST) (Num 12)"
  by (simp_all add: scenario_record_def Let_def)

text \<open>The known scenario of the test suite: 30000 users, ratio 50/50, adoption 60.\<close>

lemma known_scenario:
  "calculateScenarioComparison [Num 30000] [Num 100] [''50/50''] (Num 75) (Num 600) (Num 60) =
     [\<lparr>sd_users = Num 30000, sd_agents = Num 100, sd_ratio = ''50/50'',
       sd_activeUsers = Num 18000, sd_creditsPerUserMonth = Num 338,
       sd_monthlyPayg = Num 60750, sd_yearlyPayg = Num 729000,
       sd_yearlyM365 = Num 10800000, sd_savings = Num 10071000,
       sd_savingsPercent = Num 93\<rparr>]"
  by code_simp

lemma jmul_zero_cases: "jmul (Num 0) x = Num 0 \<or> jmul (Num 0) x = NaN"
  by (cases x) (simp_all add: inf_of_sign_def)

lemma jround_zero_nan: "x = Num 0 \<or> x = NaN \<Longrightarrow> jround x = Num 0 \<or> jround x = NaN"
  by (auto simp del: jround.simps) simp

lemma jmul_zero_nan: "x = Num 0 \<or> x = NaN \<Longrightarrow> jmul x y = Num 0 \<or> jmul x y = NaN"
  by (cases y) (auto simp: inf_of_sign_def)

lemma flat_seat_zero_users: "jmul (jmul u M365_COPILOT_COST) (Num 12) = Num 0 \<Longrightarrow> u = Num 0"
  by (cases u) (auto simp: M365_COPILOT_COST_def inf_of_sign_def split: if_splits)

lemma savingsPercent_nan:
  assumes h: "sd_yearlyM365 (scenario_record s c ssa u a r) = Num 0"
  shows "sd_savingsPercent (scenario_record s c ssa u a r) = NaN"
proof -
  from h have u0: "u = Num 0" by (simp add: scenario_record_fields flat_seat_zero_users)
  let ?cp = "jadd (jmul s (fst (parseRatio r))) (jmul c (snd (parseRatio r)))"
  let ?act = "jround (jmul u (jdiv ssa (Num 100)))"
  let ?py = "jmul (jmul (jmul ?act ?cp) (Num 12)) PAYG_RATE"
  have a: "?act = Num 0 \<or> ?act = NaN"
    unfolding u0 using jround_zero_nan[OF jmul_zero_cases[of "jdiv ssa (Num 100)"]] .
  have "jmul ?act ?cp = Num 0 \<or> jmul ?act ?cp = NaN" using a by (rule jmul_zero_nan)
  then have "jmul (jmul ?act ?cp) (Num 12) = Num 0 \<or> jmul (jmul ?act ?cp) (Num 12) = NaN"
    by (rule jmul_zero_nan)
  then have p: "?py = Num 0 \<or> ?py = NaN" by (rule jmul_zero_nan)
  have m: "jmul (jmul u M365_COPILOT_COST) (Num 12) = Num 0"
    using h by (simp add: scenario_record_fields)
  have "sd_savingsPercent (scenario_record s c ssa u a r) =
     jround (jmul (jdiv (jsub (Num 0) ?py) (Num 0)) (Num 100))"
    using m by (simp add: scenario_record_def Let_def)
  also have "\<dots> = NaN" using p by (auto simp: jsub_def inf_of_sign_def)
  finally show ?thesis .
qed

lemma zero_users_scenario:
  "calculateScenarioComparison [Num 0] [Num 100] [''50/50''] (Num 75) (Num 600) (Num 60) =
     [\<lparr>sd_users = Num 0, sd_agents = Num 100, sd_ratio = ''50/50'',
       sd_activeUsers = Num 0, sd_creditsPerUserMonth = Num 338,
       sd_monthlyPayg = Num 0, sd_yearlyPayg = Num 0,
       sd_yearlyM365 = Num 0, sd_savings = Num 0,
       sd_savingsPercent = NaN\<rparr>]"
  by code_simp

text \<open>
  C7. The specification has the generator signal an undefined \<open>savingsPercent\<close> as an
  explicit error. The code does not: with a user count of 0 the call returns normally, and
  the record it returns carries \<open>NaN\<close> in \<open>savingsPercent\<close> next to ordinary numbers in
  every other field.
\<close>

theorem savingsPercent_not_signalled:
  "calculateScenarioComparison_call [Num 0] [Num 100] [''50/50''] (Num 75) (Num 600) (Num 60) =
     Inr [\<lparr>sd_users = Num 0, sd_agents = Num 100, sd_ratio = ''50/50'',
           sd_activeUsers = Num 0, sd_creditsPerUserMonth = Num 338,
           sd_monthlyPayg = Num 0, sd_yearlyPayg = Num 0,
           sd_yearlyM365 = Num 0, sd_savings = Num 0,
           sd_savingsPercent = NaN\<rparr>]"
  by (simp add: calculateScenarioComparison_call_def zero_users_scenario)

text \<open>
  C7, as the code has it. The call never throws. In every record it returns whose yearly
  flat-seat baseline is 0, \<open>savingsPercent\<close> is \<open>NaN\<close>, the result of the division \<open>0 / 0\<close>:
  it is neither 0 nor an infinity, and nothing but the field itself tells the caller.
\<close>

theorem savingsPercent_undefined:
  "\<exists>recs. calculateScenarioComparison_call us ags cs s c ssa = Inr recs \<and>
     (\<forall>rec \<in> set recs.
        sd_yearlyM365 rec = Num 0 \<longrightarrow>
          sd_savingsPercent rec = NaN \<and> sd_savingsPercent rec \<noteq> Num 0 \<and>
          sd_savingsPercent rec \<noteq> PosInf \<and> sd_savingsPercent rec \<noteq> NegInf)"
proof -
  have "\<forall>rec \<in> set (calculateScenarioComparison us ags cs s c ssa).
        sd_yearlyM365 rec = Num 0 \<longrightarrow>
          sd_savingsPercent rec = NaN \<and> sd_savingsPercent rec \<noteq> Num 0 \<and>
          sd_savingsPercent rec \<noteq> PosInf \<and> sd_savingsPercent rec \<noteq> NegInf"
    unfolding set_calculateScenarioComparison
    using savingsPercent_nan by auto
  then show ?thesis unfolding calculateScenarioComparison_call_def by blast
qed

theorem savingsPercent_undefined_witness:
  "scenario_record (Num 75) (Num 600) (Num 60) (Num 0) (Num 100) ''50/50'' \<in>
     set (calculateScenarioComparison [Num 0] [Num 100] [''50/50''] (Num 75) (Num 600) (Num 60)) \<and>
   sd_yearlyM365 (scenario_record (Num 75) (Num 600) (Num 60) (Num 0) (Num 100) ''50/50'') = Num 0 \<and>
   sd_savingsPercent (scenario_record (Num 75) (Num 600) (Num 60) (Num 0) (Num 100) ''50/50'') = NaN"
proof -
  let ?r = "scenario_record (Num 75) (Num 600) (Num 60) (Num 0) (Num 100) ''50/50''"
  have m: "?r \<in> set (calculateScenarioComparison [Num 0] [Num 100] [''50/50'']
                        (Num 75) (Num 600) (Num 60))"
    by (simp add: set_calculateScenarioComparison)
  have z: "sd_yearlyM365 ?r = Num 0"
    by (simp add: scenario_record_fields M365_COPILOT_COST_def)
  from savingsPercent_undefined[of "[Num 0]" "[Num 100]" "[''50/50'']" "Num 75" "Num 600" "Num 60"]
  have "\<forall>rec \<in> set (calculateScenarioComparison [Num 0] [Num 100] [''50/50'']
                          (Num 75) (Num 600) (Num 60)).
          sd_yearlyM365 rec = Num 0 \<longrightarrow> sd_savingsPercent rec = NaN"
    unfolding calculateScenarioComparison_call_def by auto
  then have "sd_savingsPercent ?r = NaN" using m z by blast
  with m z show ?thesis by blast
qed

lemma erase_label:
  "(scenario_record s c ssa u a r)\<lparr>sd_agents := z\<rparr> =
   (scenario_record s c ssa u a' r)\<lparr>sd_agents := z\<rparr>"
  by (simp add: scenario_record_def Let_def)

lemma inner_labels:
  "length as1 = length as2 \<Longrightarrow>
   map (\<lambda>rec. rec\<lparr>sd_agents := z\<rparr>)
     (concat (map (\<lambda>agents. map (\<lambda>ratio. scenario_record s c ssa u agents ratio) cs) as1)) =
   map (\<lambda>rec. rec\<lparr>sd_agents := z\<rparr>)
     (concat (map (\<lambda>agents. map (\<lambda>ratio. scenario_record s c ssa u agents ratio) cs) as2))"
proof (induction as1 as2 rule: list_induct2)
  case Nil
  then show ?case by simp
next
  case (Cons a1 r1 a2 r2)
  have "map (\<lambda>rec. rec\<lparr>sd_agents := z\<rparr>) (map (\<lambda>ratio. scenario_record s c ssa u a1 ratio) cs) =
        map (\<lambda>rec. rec\<lparr>sd_agents := z\<rparr>) (map (\<lambda>ratio. scenario_record s c ssa u a2 ratio) cs)"
    using erase_label[where a = a1 and a' = a2] by simp
  with Cons.IH show ?case by simp
qed

text \<open>
  C8. Two runs of \<open>calculateScenarioComparison\<close> that differ only in the agent-count
  labels (two label lists of the same length) return as many records, and the records
  agree position by position once the label field \<open>agents\<close> is overwritten with the same
  value: the label reaches no other field.
\<close>

theorem agent_label_no_effect:
  "length as1 = length as2 \<Longrightarrow>
   length (calculateScenarioComparison us as1 cs s c ssa) =
     length (calculateScenarioComparison us as2 cs s c ssa) \<and>
   map (\<lambda>rec. rec\<lparr>sd_agents := z\<rparr>) (calculateScenarioComparison us as1 cs s c ssa) =
   map (\<lambda>rec. rec\<lparr>sd_agents := z\<rparr>) (calculateScenarioComparison us as2 cs s c ssa)"
proof -
  assume len: "length as1 = length as2"
  have m: "map (\<lambda>rec. rec\<lparr>sd_agents := z\<rparr>) (calculateScenarioComparison us as1 cs s c ssa) =
   map (\<lambda>rec. rec\<lparr>sd_agents := z\<rparr>) (calculateScenarioComparison us as2 cs s c ssa)"
    unfolding calculateScenarioComparison_def
    by (induction us) (simp_all add: inner_labels[OF len])
  have "length (map (\<lambda>rec. rec\<lparr>sd_agents := z\<rparr>) (calculateScenarioComparison us as1 cs s c ssa)) =
        length (map (\<lambda>rec. rec\<lparr>sd_agents := z\<rparr>) (calculateScenarioComparison us as2 cs s c ssa))"
    by (simp only: m)
  then have l: "length (calculateScenarioComparison us as1 cs s c ssa) =
     length (calculateScenarioComparison us as2 cs s c ssa)" by simp
  show ?thesis using l m by blast
qed

theorem agent_label_no_effect_witness:
  "length [Num 10, Num 30] = length [Num 100, Num 7] \<and>
   map (\<lambda>rec. rec\<lparr>sd_agents := Num 0\<rparr>)
     (calculateScenarioComparison [Num 1300] [Num 10, Num 30] [''80/20''] (Num 75) (Num 600) (Num 60)) =
   map (\<lambda>rec. rec\<lparr>sd_agents := Num 0\<rparr>)
     (calculateScenarioComparison [Num 1300] [Num 100, Num 7] [''80/20''] (Num 75) (Num 600) (Num 60))"
proof -
  have h: "length [Num 10, Num 30] = length [Num 100, Num 7]" by simp
  from agent_label_no_effect[OF h] show ?thesis using h by blast
qed

section \<open>Properties of the rollout projector: stages and interpolation\<close>

lemma sorted_last_max:
  "sorted_wrt (\<lambda>x y. st_month x < st_month y) xs \<Longrightarrow> s \<in> set xs \<Longrightarrow>
   st_month s \<le> st_month (last xs)"
proof (induction xs)
  case Nil
  then show ?case by simp
next
  case (Cons x xs)
  show ?case
  proof (cases "xs = []")
    case True
    with Cons.prems show ?thesis by simp
  next
    case False
    then have l: "last xs \<in> set xs" by simp
    from Cons.prems(1) have lt: "\<forall>y \<in> set xs. st_month x < st_month y"
      and so: "sorted_wrt (\<lambda>x y. st_month x < st_month y) xs"
      by simp_all
    show ?thesis
    proof (cases "s = x")
      case True
      have "st_month x < st_month (last xs)" using lt l by blast
      then show ?thesis using True \<open>xs \<noteq> []\<close> by simp
    next
      case False
      with Cons.prems(2) have "s \<in> set xs" by simp
      with Cons.IH[OF so] \<open>xs \<noteq> []\<close> show ?thesis by simp
    qed
  qed
qed

lemma sorted_hd_min:
  "sorted_wrt (\<lambda>x y. st_month x < st_month y) xs \<Longrightarrow> s \<in> set xs \<Longrightarrow>
   st_month (hd xs) \<le> st_month s"
  by (cases xs) auto

lemma before_is_latest:
  assumes "strictly_increasing stages" and "filter (\<lambda>s. st_month s \<le> M) stages \<noteq> []"
  shows "latest_before stages M (last (filter (\<lambda>s. st_month s \<le> M) stages))"
proof -
  let ?F = "filter (\<lambda>s. st_month s \<le> M) stages"
  have so: "sorted_wrt (\<lambda>x y. st_month x < st_month y) ?F"
    using assms(1) unfolding strictly_increasing_def by (rule sorted_wrt_filter)
  have "last ?F \<in> set ?F" using assms(2) by (rule last_in_set)
  then have a: "last ?F \<in> set stages" "st_month (last ?F) \<le> M" by simp_all
  have "st_month s \<le> st_month (last ?F)" if "s \<in> set stages" "st_month s \<le> M" for s
    using sorted_last_max[OF so, of s] that by simp
  with a show ?thesis unfolding latest_before_def by blast
qed

lemma after_is_earliest:
  assumes "strictly_increasing stages" and "filter (\<lambda>s. st_month s > M) stages = a # rest"
  shows "earliest_after stages M a"
proof -
  let ?F = "filter (\<lambda>s. st_month s > M) stages"
  have so: "sorted_wrt (\<lambda>x y. st_month x < st_month y) ?F"
    using assms(1) unfolding strictly_increasing_def by (rule sorted_wrt_filter)
  have "a \<in> set ?F" using assms(2) by simp
  then have m: "a \<in> set stages" "M < st_month a" by simp_all
  have "st_month a \<le> st_month s" if "s \<in> set stages" "M < st_month s" for s
  proof -
    have "s \<in> set ?F" using that by simp
    from sorted_hd_min[OF so this] have "st_month (hd ?F) \<le> st_month s" .
    then show ?thesis by (simp only: assms(2) list.sel)
  qed
  with m show ?thesis unfolding earliest_after_def by blast
qed

lemma find_app:
  "find P (xs @ ys) = (case find P xs of None \<Rightarrow> find P ys | Some x \<Rightarrow> Some x)"
  by (induction xs) auto

lemma find_rev_last:
  "find P (rev xs) = (if filter P xs = [] then None else Some (last (filter P xs)))"
  by (induction xs) (auto simp: find_app split: option.splits)

text \<open>
  The agent-aggregated generation: on a strictly increasing stage list with a stage that
  has started, the current stage is the latest that has started.
\<close>

lemma currentStage_latest:
  assumes "strictly_increasing stages" and "\<exists>s \<in> set stages. st_month s \<le> M"
  shows "\<exists>b. currentStage stages M = Some b \<and> latest_before stages M b"
proof -
  let ?F = "filter (\<lambda>s. st_month s \<le> M) stages"
  from assms(2) have ne: "?F \<noteq> []" by (auto simp: filter_empty_conv)
  then have "currentStage stages M = Some (last ?F)"
    by (simp add: currentStage_def find_rev_last)
  with before_is_latest[OF assms(1) ne] show ?thesis by blast
qed

text \<open>
  The \<open>agentMonthlyCosts\<close> of the config-driven generation: once the first stage has
  started, the current stage is the first stage, whatever has started since.
\<close>

lemma currentStage_cfg_first:
  assumes "stages = s0 # rest" and "st_month s0 \<le> M"
  shows "currentStage_cfg stages M = Some s0"
  using assms by (simp add: currentStage_cfg_def)

lemma interpolate_cases:
  assumes inc: "strictly_increasing stages" and ne: "stages \<noteq> []"
  shows "(\<not> (\<exists>s \<in> set stages. st_month s \<le> M) \<longrightarrow>
            (\<exists>a. earliest_after stages M a \<and> interpolate_at stages M g = Inr (g a))) \<and>
         (\<not> (\<exists>s \<in> set stages. M < st_month s) \<longrightarrow>
            (\<exists>b. latest_before stages M b \<and> interpolate_at stages M g = Inr (g b))) \<and>
         ((\<exists>s \<in> set stages. st_month s \<le> M) \<and> (\<exists>s \<in> set stages. M < st_month s) \<longrightarrow>
            (\<exists>b a. latest_before stages M b \<and> earliest_after stages M a \<and>
               interpolate_at stages M g =
                 Inr (jadd (g b) (jmul (jsub (g a) (g b))
                        (jdiv (jsub (of_month M) (of_month (st_month b)))
                              (jsub (of_month (st_month a)) (of_month (st_month b))))))))"
proof -
  let ?B = "filter (\<lambda>s. st_month s \<le> M) stages"
  let ?A = "filter (\<lambda>s. st_month s > M) stages"
  have c1: "\<exists>a. earliest_after stages M a \<and> interpolate_at stages M g = Inr (g a)"
    if h: "\<not> (\<exists>s \<in> set stages. st_month s \<le> M)"
  proof -
    from h have b: "?B = []" by (auto simp: filter_empty_conv)
    from h ne have "?A \<noteq> []" by (cases stages) (auto simp: filter_empty_conv)
    then obtain a rest where a: "?A = a # rest" by (cases ?A) auto
    have "interpolate_at stages M g = Inr (g a)"
      by (simp add: interpolate_at_def interpolateValue_def b a)
    with after_is_earliest[OF inc a] show ?thesis by blast
  qed
  have c2: "\<exists>b. latest_before stages M b \<and> interpolate_at stages M g = Inr (g b)"
    if h: "\<not> (\<exists>s \<in> set stages. M < st_month s)"
  proof -
    from h have a: "?A = []" by (auto simp: filter_empty_conv)
    from h ne have b: "?B \<noteq> []" by (cases stages) (auto simp: filter_empty_conv not_less)
    have "interpolate_at stages M g = Inr (g (last ?B))"
      using b by (simp add: interpolate_at_def interpolateValue_def a)
    with before_is_latest[OF inc b] show ?thesis by blast
  qed
  have c3: "\<exists>b a. latest_before stages M b \<and> earliest_after stages M a \<and>
               interpolate_at stages M g =
                 Inr (jadd (g b) (jmul (jsub (g a) (g b))
                        (jdiv (jsub (of_month M) (of_month (st_month b)))
                              (jsub (of_month (st_month a)) (of_month (st_month b))))))"
    if h: "(\<exists>s \<in> set stages. st_month s \<le> M) \<and> (\<exists>s \<in> set stages. M < st_month s)"
  proof -
    from h have b: "?B \<noteq> []" by (auto simp: filter_empty_conv)
    from h have "?A \<noteq> []" by (auto simp: filter_empty_conv)
    then obtain a rest where a: "?A = a # rest" by (cases ?A) auto
    have "interpolate_at stages M g =
        Inr (jadd (g (last ?B)) (jmul (jsub (g a) (g (last ?B)))
                        (jdiv (jsub (of_month M) (of_month (st_month (last ?B))))
                              (jsub (of_month (st_month a)) (of_month (st_month (last ?B)))))))"
      using b by (simp add: interpolate_at_def interpolateValue_def a Let_def)
    with before_is_latest[OF inc b] after_is_earliest[OF inc a] show ?thesis by blast
  qed
  show ?thesis using c1 c2 c3 by blast
qed

lemma interpolate_total:
  assumes ne: "stages \<noteq> []"
  shows "\<exists>v. interpolate_at stages M g = Inr v"
proof -
  let ?B = "filter (\<lambda>s. st_month s \<le> M) stages"
  let ?A = "filter (\<lambda>s. st_month s > M) stages"
  have "?B \<noteq> [] \<or> ?A \<noteq> []"
    using ne by (cases stages) (auto simp: filter_empty_conv not_less)
  then show ?thesis
    by (auto simp: interpolate_at_def interpolateValue_def Let_def split: list.splits)
qed

lemma currentStage_some: "stages \<noteq> [] \<Longrightarrow> \<exists>st. currentStage stages M = Some st"
  by (cases stages) (auto simp: currentStage_def split: option.splits)

lemma eligibleUsers_some: "\<exists>v. eligibleUsers segs (Some st) users = Inr v"
  by (simp add: eligibleUsers_def)

lemma agents_loop_total:
  "\<exists>t. agents_loop users dau (Some st) month agents (tc, tcr, ta) = Inr t"
proof (induction agents arbitrary: tc tcr ta)
  case Nil
  then show ?case by simp
next
  case (Cons a agents)
  obtain v where v: "eligibleUsers (ag_segments a) (Some st) users = Inr v"
    using eligibleUsers_some by blast
  show ?case using Cons.IH by (simp add: v Let_def)
qed

text \<open>With at least one stage a month of \<open>monthlyData\<close> throws nothing.\<close>

lemma month_body_total:
  assumes "stages \<noteq> []"
  shows "\<exists>r u d t. month_body stages agents config M = Inr r \<and>
           interpolate_at stages M st_users = Inr u \<and> interpolate_at stages M st_dau = Inr d \<and>
           agents_loop (jround u) d (currentStage stages M) M agents (Num 0, Num 0, Num 0) = Inr t \<and>
           r = month_record config M (jround u) d t"
proof -
  obtain u where u: "interpolate_at stages M st_users = Inr u"
    using interpolate_total[OF assms] by blast
  obtain d where d: "interpolate_at stages M st_dau = Inr d"
    using interpolate_total[OF assms] by blast
  obtain st where st: "currentStage stages M = Some st"
    using currentStage_some[OF assms] by blast
  obtain t where t: "agents_loop (jround u) d (Some st) M agents (Num 0, Num 0, Num 0) = Inr t"
    using agents_loop_total by blast
  have mb: "month_body stages agents config M = Inr (month_record config M (jround u) d t)"
    by (simp add: month_body_def u d st t)
  have t': "agents_loop (jround u) d (currentStage stages M) M agents (Num 0, Num 0, Num 0) = Inr t"
    using t st by simp
  show ?thesis using mb u d t' by blast
qed

lemma month_record_users_dau:
  "rm_users (month_record config M users dau t) = users"
  "rm_dau (month_record config M users dau t) = dau"
  by (cases t; simp add: month_record_def Let_def)+

lemma month_body_cfg_total:
  assumes "stages \<noteq> []"
  shows "\<exists>u d. month_body_cfg stages config M = Inr (month_record_cfg config M (jround u) d) \<and>
           interpolate_at stages M st_users = Inr u \<and> interpolate_at stages M st_dau = Inr d"
proof -
  obtain u where u: "interpolate_at stages M st_users = Inr u"
    using interpolate_total[OF assms] by blast
  obtain d where d: "interpolate_at stages M st_dau = Inr d"
    using interpolate_total[OF assms] by blast
  show ?thesis by (simp add: month_body_cfg_def u d)
qed

lemma month_record_cfg_users_dau:
  "rm_users (month_record_cfg config M users dau) = users"
  "rm_dau (month_record_cfg config M users dau) = dau"
  by (simp_all add: month_record_cfg_def Let_def)

text \<open>
  C5. On a non-empty stage list sorted by strictly increasing anchor month, for a target
  month \<open>M\<close> and either interpolated quantity \<open>g\<close>: with no stage at or before \<open>M\<close> the value
  is that of the earliest later stage; with no stage after \<open>M\<close> it is that of the latest
  earlier stage; otherwise it is
  \<open>before + (after - before) * (M - before.month) / (after.month - before.month)\<close>. Both
  generations of \<open>monthlyData\<close> store the rounded interpolation of the users and the
  unrounded interpolation of the daily-active fraction.
\<close>

theorem interpolation_cases:
  assumes inc: "strictly_increasing stages" and ne: "stages \<noteq> []"
  shows "(\<not> (\<exists>s \<in> set stages. st_month s \<le> M) \<longrightarrow>
            (\<exists>a. earliest_after stages M a \<and> interpolate_at stages M g = Inr (g a))) \<and>
         (\<not> (\<exists>s \<in> set stages. M < st_month s) \<longrightarrow>
            (\<exists>b. latest_before stages M b \<and> interpolate_at stages M g = Inr (g b))) \<and>
         ((\<exists>s \<in> set stages. st_month s \<le> M) \<and> (\<exists>s \<in> set stages. M < st_month s) \<longrightarrow>
            (\<exists>b a. latest_before stages M b \<and> earliest_after stages M a \<and>
               interpolate_at stages M g =
                 Inr (jadd (g b) (jmul (jsub (g a) (g b))
                        (jdiv (jsub (of_month M) (of_month (st_month b)))
                              (jsub (of_month (st_month a)) (of_month (st_month b)))))))) \<and>
         (\<exists>r rc u d. month_body stages agents config M = Inr r \<and>
            month_body_cfg stages config_cfg M = Inr rc \<and>
            interpolate_at stages M st_users = Inr u \<and> interpolate_at stages M st_dau = Inr d \<and>
            rm_users r = jround u \<and> rm_dau r = d \<and> rm_users rc = jround u \<and> rm_dau rc = d)"
proof -
  obtain r u d t where r: "month_body stages agents config M = Inr r"
    and u: "interpolate_at stages M st_users = Inr u"
    and d: "interpolate_at stages M st_dau = Inr d"
    and req: "r = month_record config M (jround u) d t"
    using month_body_total[OF ne] by blast
  obtain u' d' where rc: "month_body_cfg stages config_cfg M =
      Inr (month_record_cfg config_cfg M (jround u') d')"
    and u': "interpolate_at stages M st_users = Inr u'"
    and d': "interpolate_at stages M st_dau = Inr d'"
    using month_body_cfg_total[OF ne] by blast
  from u u' d d' have same: "u' = u" "d' = d" by simp_all
  have "\<exists>r rc u d. month_body stages agents config M = Inr r \<and>
            month_body_cfg stages config_cfg M = Inr rc \<and>
            interpolate_at stages M st_users = Inr u \<and> interpolate_at stages M st_dau = Inr d \<and>
            rm_users r = jround u \<and> rm_dau r = d \<and> rm_users rc = jround u \<and> rm_dau rc = d"
    using r rc u d unfolding req same
    by (auto simp: month_record_users_dau month_record_cfg_users_dau)
  with interpolate_cases[OF inc ne, of M g] show ?thesis by blast
qed

lemma default_stages_increasing: "strictly_increasing default_stages"
  by (simp add: strictly_increasing_def default_stages_def)

theorem interpolation_cases_witness:
  "strictly_increasing default_stages \<and> default_stages \<noteq> [] \<and>
   \<not> (\<exists>s \<in> set default_stages. st_month s \<le> 0) \<and>
   (\<exists>a. earliest_after default_stages 0 a \<and> interpolate_at default_stages 0 st_users = Inr (st_users a)) \<and>
   \<not> (\<exists>s \<in> set default_stages. 36 < st_month s) \<and>
   (\<exists>b. latest_before default_stages 36 b \<and> interpolate_at default_stages 36 st_users = Inr (st_users b)) \<and>
   (\<exists>s \<in> set default_stages. st_month s \<le> 5) \<and> (\<exists>s \<in> set default_stages. 5 < st_month s) \<and>
   (\<exists>b a. latest_before default_stages 5 b \<and> earliest_after default_stages 5 a \<and>
      interpolate_at default_stages 5 st_users =
        Inr (jadd (st_users b) (jmul (jsub (st_users a) (st_users b))
               (jdiv (jsub (of_month 5) (of_month (st_month b)))
                     (jsub (of_month (st_month a)) (of_month (st_month b)))))))"
proof -
  have ne: "default_stages \<noteq> []" by (simp add: default_stages_def)
  have h0: "\<not> (\<exists>s \<in> set default_stages. st_month s \<le> 0)" by (simp add: default_stages_def)
  have h36: "\<not> (\<exists>s \<in> set default_stages. 36 < st_month s)" by (simp add: default_stages_def)
  have h5: "(\<exists>s \<in> set default_stages. st_month s \<le> 5) \<and> (\<exists>s \<in> set default_stages. 5 < st_month s)"
    by (simp add: default_stages_def)
  note t0 = interpolation_cases[OF default_stages_increasing ne, of 0 st_users]
  note t36 = interpolation_cases[OF default_stages_increasing ne, of 36 st_users]
  note t5 = interpolation_cases[OF default_stages_increasing ne, of 5 st_users]
  have r0: "\<exists>a. earliest_after default_stages 0 a \<and>
      interpolate_at default_stages 0 st_users = Inr (st_users a)"
    using t0 h0 by blast
  have r36: "\<exists>b. latest_before default_stages 36 b \<and>
      interpolate_at default_stages 36 st_users = Inr (st_users b)"
    using t36 h36 by blast
  have r5: "\<exists>b a. latest_before default_stages 5 b \<and> earliest_after default_stages 5 a \<and>
      interpolate_at default_stages 5 st_users =
        Inr (jadd (st_users b) (jmul (jsub (st_users a) (st_users b))
               (jdiv (jsub (of_month 5) (of_month (st_month b)))
                     (jsub (of_month (st_month a)) (of_month (st_month b))))))"
    using t5 h5 by blast
  show ?thesis using default_stages_increasing ne h0 h36 h5 r0 r36 r5 by blast
qed

section \<open>Properties of the rollout projector: the monthly series\<close>

lemma run_months_nth:
  "run_months f ms = Inr rs \<Longrightarrow> length rs = length ms \<and> (\<forall>i < length ms. f (ms ! i) = Inr (rs ! i))"
proof (induction ms arbitrary: rs)
  case Nil
  then show ?case by simp
next
  case (Cons m ms)
  from Cons.prems obtain r rs' where r: "f m = Inr r" and rs': "run_months f ms = Inr rs'"
    and eq: "rs = r # rs'"
    by (auto split: sum.splits)
  from Cons.IH[OF rs'] have ih: "length rs' = length ms" "\<forall>i < length ms. f (ms ! i) = Inr (rs' ! i)"
    by simp_all
  show ?case unfolding eq using r ih by (auto simp: nth_Cons split: nat.splits)
qed

lemma run_months_total:
  "(\<forall>m \<in> set ms. \<exists>r. f m = Inr r) \<Longrightarrow> \<exists>rs. run_months f ms = Inr rs"
proof (induction ms)
  case Nil
  then show ?case by simp
next
  case (Cons m ms)
  then obtain r rs where "f m = Inr r" "run_months f ms = Inr rs" by auto
  then show ?case by simp
qed

lemma upto_1_36_nth: "1 \<le> M \<Longrightarrow> M \<le> 36 \<Longrightarrow> [1..36] ! nat (M - 1) = M"
proof -
  assume a: "1 \<le> M" "M \<le> 36"
  have "[1..36] ! nat (M - 1) = 1 + int (nat (M - 1))" using a by (intro nth_upto) simp
  then show ?thesis using a by simp
qed

lemma months_loop:
  assumes "\<And>M. \<exists>r. f M = Inr r"
  shows "\<exists>md. run_months f [1..36] = Inr md \<and> length md = 36 \<and>
           (\<forall>M. 1 \<le> M \<and> M \<le> 36 \<longrightarrow> f M = Inr (md ! nat (M - 1)))"
proof -
  obtain md where md: "run_months f [1..36] = Inr md"
    using run_months_total[of "[1..36]" f] assms by blast
  from run_months_nth[OF md] have len: "length md = 36"
    and nth: "\<forall>i < length [1..36::int]. f ([1..36] ! i) = Inr (md ! i)" by simp_all
  have "f M = Inr (md ! nat (M - 1))" if "1 \<le> M \<and> M \<le> 36" for M
  proof -
    have "nat (M - 1) < 36" using that by linarith
    then have "nat (M - 1) < length [1..36::int]" by simp
    with nth have "f ([1..36] ! nat (M - 1)) = Inr (md ! nat (M - 1))" by blast
    then show ?thesis using upto_1_36_nth that by simp
  qed
  with md len show ?thesis by blast
qed

lemma month_record_cfg_conversations:
  "rm_conversations (month_record_cfg config M users dau) =
     jround (jmul (jmul (jmul (rm_activeUsers (month_record_cfg config M users dau))
                              (cc_conversationsPerDay config)) workingDaysPerMonth)
                  (if M mod 6 = 0 then cc_peakMultiplier config else Num 1))"
  "rm_month (month_record_cfg config M users dau) = M"
  by (simp_all add: month_record_cfg_def Let_def multiplier_cfg_def)

lemma month_record_conversations:
  "rm_conversations (month_record config M users dau (tc, tcr, ta)) = jround tc"
  "rm_month (month_record config M users dau t) = M"
  by (cases t; simp add: month_record_def Let_def)+

text \<open>
  C3 (amended). In the config-driven 36-month projection the conversation volume of month
  \<open>M\<close> is \<open>activeUsers * conversationsPerDay * 22\<close> times the configured peak multiplier
  (1.4 in the initial state) when \<open>M mod 6 = 0\<close>, and times \<open>1\<close> in every other month. The
  agent-aggregated 36-month projection has no peak multiplier: its volume is in every month
  the sum that the loop over the agents returns.
\<close>

theorem peak_multiplier_config_driven:
  assumes ne: "stages \<noteq> []"
  shows "(\<exists>md. monthlyData_cfg stages config_cfg = Inr md \<and> length md = 36 \<and>
           (\<forall>M. 1 \<le> M \<and> M \<le> 36 \<longrightarrow>
              rm_month (md ! nat (M - 1)) = M \<and>
              rm_conversations (md ! nat (M - 1)) =
                jround (jmul (jmul (jmul (rm_activeUsers (md ! nat (M - 1)))
                                         (cc_conversationsPerDay config_cfg)) workingDaysPerMonth)
                             (if M mod 6 = 0 then cc_peakMultiplier config_cfg else Num 1)))) \<and>
         cc_peakMultiplier default_config_cfg = Num (14 / 10) \<and>
         (\<exists>md. monthlyData stages agents config = Inr md \<and> length md = 36 \<and>
           (\<forall>M. 1 \<le> M \<and> M \<le> 36 \<longrightarrow>
              rm_month (md ! nat (M - 1)) = M \<and>
              (\<exists>tc tcr ta.
                 agents_loop (rm_users (md ! nat (M - 1))) (rm_dau (md ! nat (M - 1)))
                   (currentStage stages M) M agents (Num 0, Num 0, Num 0) = Inr (tc, tcr, ta) \<and>
                 rm_conversations (md ! nat (M - 1)) = jround tc)))"
proof -
  have tot_cfg: "\<exists>r. month_body_cfg stages config_cfg M = Inr r" for M
    using month_body_cfg_total[OF ne] by blast
  obtain md where md: "run_months (month_body_cfg stages config_cfg) [1..36] = Inr md"
    and len: "length md = 36"
    and nth: "\<forall>M. 1 \<le> M \<and> M \<le> 36 \<longrightarrow> month_body_cfg stages config_cfg M = Inr (md ! nat (M - 1))"
    using months_loop[of "month_body_cfg stages config_cfg"] tot_cfg by blast
  have a: "rm_month (md ! nat (M - 1)) = M \<and>
              rm_conversations (md ! nat (M - 1)) =
                jround (jmul (jmul (jmul (rm_activeUsers (md ! nat (M - 1)))
                                         (cc_conversationsPerDay config_cfg)) workingDaysPerMonth)
                             (if M mod 6 = 0 then cc_peakMultiplier config_cfg else Num 1))"
    if m: "1 \<le> M \<and> M \<le> 36" for M
  proof -
    obtain u d where "month_body_cfg stages config_cfg M = Inr (month_record_cfg config_cfg M (jround u) d)"
      using month_body_cfg_total[OF ne] by blast
    with nth m have "md ! nat (M - 1) = month_record_cfg config_cfg M (jround u) d" by simp
    then show ?thesis using month_record_cfg_conversations by simp
  qed
  have part1: "\<exists>md. monthlyData_cfg stages config_cfg = Inr md \<and> length md = 36 \<and>
           (\<forall>M. 1 \<le> M \<and> M \<le> 36 \<longrightarrow>
              rm_month (md ! nat (M - 1)) = M \<and>
              rm_conversations (md ! nat (M - 1)) =
                jround (jmul (jmul (jmul (rm_activeUsers (md ! nat (M - 1)))
                                         (cc_conversationsPerDay config_cfg)) workingDaysPerMonth)
                             (if M mod 6 = 0 then cc_peakMultiplier config_cfg else Num 1)))"
    unfolding monthlyData_cfg_def using md len a by blast
  have tot: "\<exists>r. month_body stages agents config M = Inr r" for M
    using month_body_total[OF ne] by blast
  obtain md2 where md2: "run_months (month_body stages agents config) [1..36] = Inr md2"
    and len2: "length md2 = 36"
    and nth2: "\<forall>M. 1 \<le> M \<and> M \<le> 36 \<longrightarrow> month_body stages agents config M = Inr (md2 ! nat (M - 1))"
    using months_loop[of "month_body stages agents config"] tot by blast
  have b: "rm_month (md2 ! nat (M - 1)) = M \<and>
              (\<exists>tc tcr ta.
                 agents_loop (rm_users (md2 ! nat (M - 1))) (rm_dau (md2 ! nat (M - 1)))
                   (currentStage stages M) M agents (Num 0, Num 0, Num 0) = Inr (tc, tcr, ta) \<and>
                 rm_conversations (md2 ! nat (M - 1)) = jround tc)"
    if m: "1 \<le> M \<and> M \<le> 36" for M
  proof -
    obtain r u d t where r: "month_body stages agents config M = Inr r"
      and t: "agents_loop (jround u) d (currentStage stages M) M agents (Num 0, Num 0, Num 0) = Inr t"
      and req: "r = month_record config M (jround u) d t"
      using month_body_total[OF ne] by blast
    obtain tc tcr ta where tt: "t = (tc, tcr, ta)" using prod_cases3 by blast
    from nth2 m r have e: "md2 ! nat (M - 1) = month_record config M (jround u) d (tc, tcr, ta)"
      unfolding req tt by simp
    show ?thesis unfolding e using t tt
      by (simp add: month_record_users_dau month_record_conversations)
  qed
  have part2: "\<exists>md. monthlyData stages agents config = Inr md \<and> length md = 36 \<and>
           (\<forall>M. 1 \<le> M \<and> M \<le> 36 \<longrightarrow>
              rm_month (md ! nat (M - 1)) = M \<and>
              (\<exists>tc tcr ta.
                 agents_loop (rm_users (md ! nat (M - 1))) (rm_dau (md ! nat (M - 1)))
                   (currentStage stages M) M agents (Num 0, Num 0, Num 0) = Inr (tc, tcr, ta) \<and>
                 rm_conversations (md ! nat (M - 1)) = jround tc))"
    unfolding monthlyData_def using md2 len2 b by blast
  have d: "cc_peakMultiplier default_config_cfg = Num (14 / 10)"
    by (simp add: default_config_cfg_def)
  show ?thesis using part1 part2 d by blast
qed


theorem peak_multiplier_config_driven_witness:
  "default_stages \<noteq> [] \<and> (1::int) \<le> 6 \<and> (6::int) \<le> 36 \<and> (1::int) \<le> 5 \<and> (5::int) \<le> 36 \<and>
   (\<exists>md. monthlyData_cfg default_stages default_config_cfg = Inr md \<and>
      rm_conversations (md ! 5) =
        jround (jmul (jmul (jmul (rm_activeUsers (md ! 5)) (Num 4)) workingDaysPerMonth)
                     (Num (14 / 10))) \<and>
      rm_conversations (md ! 4) =
        jround (jmul (jmul (jmul (rm_activeUsers (md ! 4)) (Num 4)) workingDaysPerMonth) (Num 1)))"
proof -
  have ne: "default_stages \<noteq> []" by (simp add: default_stages_def)
  from peak_multiplier_config_driven[OF ne, of default_config_cfg]
  obtain md where md: "monthlyData_cfg default_stages default_config_cfg = Inr md"
    and all: "\<forall>M. 1 \<le> M \<and> M \<le> 36 \<longrightarrow>
              rm_month (md ! nat (M - 1)) = M \<and>
              rm_conversations (md ! nat (M - 1)) =
                jround (jmul (jmul (jmul (rm_activeUsers (md ! nat (M - 1)))
                                         (cc_conversationsPerDay default_config_cfg)) workingDaysPerMonth)
                             (if M mod 6 = 0 then cc_peakMultiplier default_config_cfg else Num 1))"
    by blast
  have h6: "(1::int) \<le> 6 \<and> (6::int) \<le> 36" and h5: "(1::int) \<le> 5 \<and> (5::int) \<le> 36" by simp_all
  have n: "nat (6 - 1) = 5" "nat (5 - 1) = 4" by simp_all
  from all[rule_format, OF h6] n(1)
  have r6: "rm_conversations (md ! 5) =
        jround (jmul (jmul (jmul (rm_activeUsers (md ! 5)) (Num 4)) workingDaysPerMonth)
                     (Num (14 / 10)))"
    by (simp add: default_config_cfg_def)
  from all[rule_format, OF h5] n(2)
  have r5: "rm_conversations (md ! 4) =
        jround (jmul (jmul (jmul (rm_activeUsers (md ! 4)) (Num 4)) workingDaysPerMonth) (Num 1))"
    by (simp add: default_config_cfg_def)
  show ?thesis using ne md r6 r5 by simp
qed

lemma floor_half_rat [simp]: "\<lfloor>1 / 2 :: rat\<rfloor> = 0"
  by (simp add: floor_eq_iff)

lemma is_finite_Num: "is_finite x \<Longrightarrow> \<exists>q. x = Num q"
  by (cases x) auto

lemma jmul_zero_finite: "is_finite x \<Longrightarrow> jmul (Num 0) x = Num 0" "is_finite x \<Longrightarrow> jmul x (Num 0) = Num 0"
  by (cases x; simp)+

lemma eligibleUsers_zero: "eligibleUsers segs (Some st) (Num 0) = Inr (Num 0)"
  by (simp add: eligibleUsers_def)

lemma is_finite_ops:
  "is_finite x \<Longrightarrow> is_finite y \<Longrightarrow> is_finite (jadd x y)"
  "is_finite x \<Longrightarrow> is_finite y \<Longrightarrow> is_finite (jmul x y)"
  "is_finite x \<Longrightarrow> is_finite y \<Longrightarrow> is_finite (jsub x y)"
  by (cases x; cases y; simp add: jsub_def)+

lemma calculateAgentCredits_finite: "finite_agent a \<Longrightarrow> is_finite (calculateAgentCredits a)"
  unfolding finite_agent_def calculateAgentCredits_def Let_def
  by (intro is_finite_ops) simp_all

lemma agents_loop_zero:
  assumes "\<forall>a \<in> set agents. finite_agent a" and "is_finite dau"
  shows "agents_loop (Num 0) dau (Some st) M agents (Num 0, Num 0, Num 0) = Inr (Num 0, Num 0, Num 0)"
  using assms(1)
proof (induction agents)
  case Nil
  then show ?case by simp
next
  case (Cons a agents)
  from Cons.prems have fa: "finite_agent a" and rest: "\<forall>a \<in> set agents. finite_agent a" by simp_all
  from fa obtain cpd ac where cpd: "ag_conversationsPerDay a = Num cpd" and ac: "ag_actions a = Num ac"
    unfolding finite_agent_def using is_finite_Num by blast
  obtain cr where cr: "calculateAgentCredits a = Num cr"
    using calculateAgentCredits_finite[OF fa] is_finite_Num by blast
  have z: "jmul (Num 0) dau = Num 0" using assms(2) by (rule jmul_zero_finite)
  show ?case using Cons.IH[OF rest]
    by (simp add: eligibleUsers_zero z cpd ac cr Let_def DAYS_PER_MONTH_def)
qed

lemma interpolate_finite:
  assumes "\<forall>s \<in> set stages. is_finite (g s)" and "interpolate_at stages M g = Inr v"
  shows "is_finite v"
proof -
  let ?B = "filter (\<lambda>s. st_month s \<le> M) stages"
  let ?A = "filter (\<lambda>s. st_month s > M) stages"
  show ?thesis
  proof (cases "?B = []")
    case True
    with assms(2) obtain a rest where a: "?A = a # rest" and v: "v = g a"
      by (auto simp: interpolate_at_def interpolateValue_def split: list.splits)
    from a have "a \<in> set ?A" by simp
    then have "a \<in> set stages" by simp
    with assms(1) v show ?thesis by simp
  next
    case False
    then have "last ?B \<in> set ?B" by (rule last_in_set)
    then have lb: "last ?B \<in> set stages" "st_month (last ?B) \<le> M" by simp_all
    obtain vb where vb: "g (last ?B) = Num vb" using assms(1) lb(1) is_finite_Num by blast
    show ?thesis
    proof (cases ?A)
      case Nil
      with assms(2) False have "v = g (last ?B)"
        by (simp add: interpolate_at_def interpolateValue_def)
      with vb show ?thesis by simp
    next
      case (Cons a rest)
      then have "a \<in> set ?A" by simp
      then have la: "a \<in> set stages" "M < st_month a" by simp_all
      obtain va where va: "g a = Num va" using assms(1) la(1) is_finite_Num by blast
      have nz: "(of_int (st_month a) :: rat) - of_int (st_month (last ?B)) \<noteq> 0"
        using la(2) lb(2) by simp
      from assms(2) False Cons show ?thesis
        using nz
        by (auto simp add: interpolate_at_def interpolateValue_def Let_def va vb jsub_def of_month_def)
    qed
  qed
qed

lemma jmin_zero: "is_finite h \<Longrightarrow> jge h (Num 0) \<Longrightarrow> jmin h (Num 0) = Num 0"
  by (cases h) (auto simp: jmin_def jge_def)

lemma month_record_zero:
  assumes "valid_config c"
  shows "rm_paygCost (month_record c M (Num 0) dau (Num 0, Num 0, Num 0)) = Num 0"
    "rm_p3Cost (month_record c M (Num 0) dau (Num 0, Num 0, Num 0)) = Num 0"
    "rm_paygM365Cost (month_record c M (Num 0) dau (Num 0, Num 0, Num 0)) = Num 0"
    "rm_p3M365Cost (month_record c M (Num 0) dau (Num 0, Num 0, Num 0)) = Num 0"
    "rm_m365AllCost (month_record c M (Num 0) dau (Num 0, Num 0, Num 0)) = Num 0"
    "jmul (jmin (cfg_hybridM365Users c) (Num 0)) (cfg_m365CopilotPrice c) = Num 0"
proof -
  from assms obtain p ar where p: "cfg_m365CopilotPrice c = Num p" and ar: "cfg_autonomousActionRatio c = Num ar"
    unfolding valid_config_def using is_finite_Num by blast
  from assms have m: "jmin (cfg_hybridM365Users c) (Num 0) = Num 0"
    unfolding valid_config_def using jmin_zero by blast
  show "rm_paygCost (month_record c M (Num 0) dau (Num 0, Num 0, Num 0)) = Num 0"
    "rm_p3Cost (month_record c M (Num 0) dau (Num 0, Num 0, Num 0)) = Num 0"
    "rm_paygM365Cost (month_record c M (Num 0) dau (Num 0, Num 0, Num 0)) = Num 0"
    "rm_p3M365Cost (month_record c M (Num 0) dau (Num 0, Num 0, Num 0)) = Num 0"
    "rm_m365AllCost (month_record c M (Num 0) dau (Num 0, Num 0, Num 0)) = Num 0"
    "jmul (jmin (cfg_hybridM365Users c) (Num 0)) (cfg_m365CopilotPrice c) = Num 0"
    by (simp_all add: month_record_def Let_def m p ar userRatio_def jgt_def jsub_def
          paygRate_def p3Discount_def)
qed

lemma userRatio_zero: "userRatio (Num 0) x = Num 0"
  by (simp add: userRatio_def jgt_def)

text \<open>
  C10. In the agent-aggregated \<open>monthlyData\<close>, on inputs that are numbers (a non-empty
  stage list, finite stage and agent fields, a finite configuration with a non-negative
  number of flat-seat users), every month whose interpolated user count is 0 has
  \<open>userRatio = 0\<close>, a seat component \<open>min(hybridM365Users, 0) * price = 0\<close>, and all five cost
  fields equal to the number 0: none is \<open>NaN\<close> or infinite.
\<close>

theorem zero_users_costs_finite:
  assumes ne: "stages \<noteq> []"
    and fs: "\<forall>s \<in> set stages. finite_stage s"
    and fa: "\<forall>a \<in> set agents. finite_agent a"
    and vc: "valid_config config"
  shows "\<exists>md. monthlyData stages agents config = Inr md \<and> length md = 36 \<and>
           (\<forall>r \<in> set md. rm_users r = Num 0 \<longrightarrow>
              userRatio (rm_users r)
                (jsub (rm_users r) (jmin (cfg_hybridM365Users config) (rm_users r))) = Num 0 \<and>
              jmul (jmin (cfg_hybridM365Users config) (rm_users r)) (cfg_m365CopilotPrice config) = Num 0 \<and>
              rm_paygCost r = Num 0 \<and> rm_p3Cost r = Num 0 \<and> rm_paygM365Cost r = Num 0 \<and>
              rm_p3M365Cost r = Num 0 \<and> rm_m365AllCost r = Num 0)"
proof -
  have tot: "\<exists>r. month_body stages agents config M = Inr r" for M
    using month_body_total[OF ne] by blast
  obtain md where md: "run_months (month_body stages agents config) [1..36] = Inr md"
    and len: "length md = 36"
    using months_loop[of "month_body stages agents config"] tot by blast
  have z: "userRatio (rm_users r)
                (jsub (rm_users r) (jmin (cfg_hybridM365Users config) (rm_users r))) = Num 0 \<and>
              jmul (jmin (cfg_hybridM365Users config) (rm_users r)) (cfg_m365CopilotPrice config) = Num 0 \<and>
              rm_paygCost r = Num 0 \<and> rm_p3Cost r = Num 0 \<and> rm_paygM365Cost r = Num 0 \<and>
              rm_p3M365Cost r = Num 0 \<and> rm_m365AllCost r = Num 0"
    if rin: "r \<in> set md" and u0: "rm_users r = Num 0" for r
  proof -
    from rin obtain i where i: "i < length md" "r = md ! i" by (auto simp: in_set_conv_nth)
    from run_months_nth[OF md] i have mb: "month_body stages agents config ([1..36] ! i) = Inr r"
      by simp
    let ?M = "[1..36::int] ! i"
    obtain r' u d t where r': "month_body stages agents config ?M = Inr r'"
      and iu: "interpolate_at stages ?M st_users = Inr u"
      and id: "interpolate_at stages ?M st_dau = Inr d"
      and t: "agents_loop (jround u) d (currentStage stages ?M) ?M agents (Num 0, Num 0, Num 0) = Inr t"
      and req: "r' = month_record config ?M (jround u) d t"
      using month_body_total[OF ne] by blast
    from mb r' have rr: "r = r'" by simp
    have ju: "jround u = Num 0" using u0 unfolding rr req by (simp add: month_record_users_dau)
    have fd: "is_finite d"
      using fs interpolate_finite[OF _ id] unfolding finite_stage_def by blast
    obtain st where st: "currentStage stages ?M = Some st" using currentStage_some[OF ne] by blast
    have "t = (Num 0, Num 0, Num 0)"
      using t agents_loop_zero[OF fa fd, of st ?M] unfolding ju st by simp
    then have e: "r = month_record config ?M (Num 0) d (Num 0, Num 0, Num 0)"
      unfolding rr req ju by simp
    show ?thesis unfolding u0 unfolding e using month_record_zero[OF vc] userRatio_zero by simp
  qed
  show ?thesis unfolding monthlyData_def using md len z by blast
qed

end
